theory Spec2Isabelle
  imports Complex_Main "HOL-Library.AList"
begin

section \<open>JavaScript values\<close>

text \<open>
  Strings of the program are modelled as Isabelle strings, a character being read as the
  code point of the same number (U+0000 to U+00FF). The functions below are the parts of
  the JavaScript string library the editor uses, on that range. Numbers that are
  coordinates and sizes are modelled as real numbers, without the rounding of floating
  point; counters, indices and times in milliseconds are natural numbers.
\<close>

definition charCode :: "char \<Rightarrow> nat" where
  "charCode c = of_char c"

definition isUpper :: "char \<Rightarrow> bool" where
  "isUpper c = ((65 \<le> charCode c \<and> charCode c \<le> 90) \<or> (192 \<le> charCode c \<and> charCode c \<le> 222 \<and> charCode c \<noteq> 215))"

definition toLowerChar :: "char \<Rightarrow> char" where
  "toLowerChar c = (if isUpper c then char_of (charCode c + 32) else c)"

definition toLowerCase :: "string \<Rightarrow> string" where
  "toLowerCase s = map toLowerChar s"

definition isWhiteSpace :: "char \<Rightarrow> bool" where
  "isWhiteSpace c = (charCode c \<in> {9, 10, 11, 12, 13, 32, 160})"

definition trim :: "string \<Rightarrow> string" where
  "trim s = rev (dropWhile isWhiteSpace (rev (dropWhile isWhiteSpace s)))"

definition startsWith :: "string \<Rightarrow> string \<Rightarrow> bool" where
  "startsWith s p = (take (length p) s = p)"

fun includesStr :: "string \<Rightarrow> string \<Rightarrow> bool" where
  "includesStr [] p = (p = [])"
| "includesStr (c # cs) p = (startsWith (c # cs) p \<or> includesStr cs p)"

definition isDigit :: "char \<Rightarrow> bool" where
  "isDigit c = (48 \<le> charCode c \<and> charCode c \<le> 57)"

definition isAsciiLetter :: "char \<Rightarrow> bool" where
  "isAsciiLetter c = ((65 \<le> charCode c \<and> charCode c \<le> 90) \<or> (97 \<le> charCode c \<and> charCode c \<le> 122))"

text \<open>The template literal of a non-negative integer: its decimal digits.\<close>

fun showNat :: "nat \<Rightarrow> string" where
  "showNat n = (if n < 10 then [char_of (48 + n)] else showNat (n div 10) @ [char_of (48 + n mod 10)])"

declare showNat.simps [simp del]

section \<open>FontClassifier (utils/fontMapper.ts)\<close>

datatype FontCategory = Serif | SansSerif | Monospace | Decorative
datatype FontWeight = WNormal | WBold | WLight
datatype FontStyle = SNormal | SItalic | SOblique

definition SERIF_PATTERNS :: "string list" where
  "SERIF_PATTERNS =
    [''times'', ''georgia'', ''garamond'', ''palatino'', ''cambria'', ''book'',
     ''roman'', ''serif'', ''minion'', ''century'', ''caslon'', ''baskerville'',
     ''didot'', ''bodoni'', ''rockwell'', ''clarendon'', ''charter'', ''merriweather'']"

definition SANS_SERIF_PATTERNS :: "string list" where
  "SANS_SERIF_PATTERNS =
    [''arial'', ''helvetica'', ''verdana'', ''tahoma'', ''calibri'', ''sans'',
     ''gothic'', ''grotesque'', ''futura'', ''avenir'', ''roboto'', ''open sans'',
     ''lato'', ''montserrat'', ''proxima'', ''source sans'', ''nunito'', ''inter'',
     ''segoe'', ''trebuchet'', ''lucida'', ''gill'', ''optima'', ''candara'']"

definition MONOSPACE_PATTERNS :: "string list" where
  "MONOSPACE_PATTERNS =
    [''mono'', ''courier'', ''consolas'', ''menlo'', ''code'', ''typewriter'',
     ''source code'', ''fira code'', ''jetbrains'', ''inconsolata'']"

definition BOLD_PATTERNS :: "string list" where
  "BOLD_PATTERNS = [''bold'', ''heavy'', ''black'', ''semibold'', ''demi'', ''medium'']"

definition ITALIC_PATTERNS :: "string list" where
  "ITALIC_PATTERNS = [''italic'', ''oblique'', ''slant'', ''inclined'']"

definition LIGHT_PATTERNS :: "string list" where
  "LIGHT_PATTERNS = [''light'', ''thin'', ''hairline'', ''ultralight'']"

text \<open>\<^verbatim>\<open>patterns.some(pattern => lowerName.includes(pattern))\<close>\<close>

definition someIncluded :: "string list \<Rightarrow> string \<Rightarrow> bool" where
  "someIncluded patterns lowerName = list_ex (\<lambda>pattern. includesStr lowerName pattern) patterns"

text \<open>
  The regular expression \<^verbatim>\<open>/^[a-z]_d\d+_f\d+$/i\<close>: one letter, an underscore, a d, one
  or more digits, an underscore, an f, one or more digits, and nothing else; letters of
  either case.
\<close>

definition digitsThenF :: "string \<Rightarrow> bool" where
  "digitsThenF r =
     (takeWhile isDigit r \<noteq> [] \<and>
      (case dropWhile isDigit r of
         u # f # ds \<Rightarrow> u = CHR ''_'' \<and> (f = CHR ''f'' \<or> f = CHR ''F'') \<and> ds \<noteq> [] \<and> list_all isDigit ds
       | _ \<Rightarrow> False))"

definition genericFontName :: "string \<Rightarrow> bool" where
  "genericFontName s =
     (case s of
        c # u # d # r \<Rightarrow> isAsciiLetter c \<and> u = CHR ''_'' \<and> (d = CHR ''d'' \<or> d = CHR ''D'') \<and> digitsThenF r
      | _ \<Rightarrow> False)"

definition detectFontCategory :: "string \<Rightarrow> FontCategory" where
  "detectFontCategory fontName =
     (let lowerName = toLowerCase fontName in
      if someIncluded MONOSPACE_PATTERNS lowerName then Monospace
      else if someIncluded SANS_SERIF_PATTERNS lowerName then SansSerif
      else if someIncluded SERIF_PATTERNS lowerName then Serif
      else if startsWith fontName ''g_'' \<or> genericFontName fontName then Serif
      else SansSerif)"

definition detectFontWeight :: "string \<Rightarrow> FontWeight" where
  "detectFontWeight fontName =
     (let lowerName = toLowerCase fontName in
      if someIncluded BOLD_PATTERNS lowerName then WBold
      else if someIncluded LIGHT_PATTERNS lowerName then WLight
      else WNormal)"

definition detectFontStyle :: "string \<Rightarrow> FontStyle" where
  "detectFontStyle fontName =
     (let lowerName = toLowerCase fontName in
      if someIncluded ITALIC_PATTERNS lowerName then SItalic else SNormal)"

record ParsedFontInfo =
  pf_category :: FontCategory
  pf_weight :: FontWeight
  pf_style :: FontStyle
  pf_originalName :: string

text \<open>
  \<^verbatim>\<open>parsePdfFont\<close>, without the two fields that are strings for the renderer
  (\<^verbatim>\<open>displayFont\<close>, \<^verbatim>\<open>pdfLibFont\<close>): both are functions of the three detected values.
  \<^verbatim>\<open>getFontInfo\<close> is \<^verbatim>\<open>parsePdfFont\<close> behind a cache keyed by the name, so it returns
  the same value.
\<close>

definition parsePdfFont :: "string \<Rightarrow> ParsedFontInfo" where
  "parsePdfFont pdfJsFontName =
     \<lparr> pf_category = detectFontCategory pdfJsFontName,
       pf_weight = detectFontWeight pdfJsFontName,
       pf_style = detectFontStyle pdfJsFontName,
       pf_originalName = pdfJsFontName \<rparr>"

definition getFontInfo :: "string \<Rightarrow> ParsedFontInfo" where
  "getFontInfo pdfJsFontName = parsePdfFont pdfJsFontName"

text \<open>
  The classification as the specification words it: an ordered list of rules, each a test
  on the identifier and the category it gives, the first rule whose test holds deciding,
  and a default when none does.
\<close>

fun firstMatch :: "((string \<Rightarrow> bool) \<times> FontCategory) list \<Rightarrow> FontCategory \<Rightarrow> string \<Rightarrow> FontCategory" where
  "firstMatch [] dflt name = dflt"
| "firstMatch ((test, cat) # rules) dflt name = (if test name then cat else firstMatch rules dflt name)"

definition classifyRules :: "((string \<Rightarrow> bool) \<times> FontCategory) list" where
  "classifyRules =
     [(\<lambda>name. someIncluded MONOSPACE_PATTERNS (toLowerCase name), Monospace),
      (\<lambda>name. someIncluded SANS_SERIF_PATTERNS (toLowerCase name), SansSerif),
      (\<lambda>name. someIncluded SERIF_PATTERNS (toLowerCase name), Serif),
      (\<lambda>name. startsWith name ''g_'' \<or> genericFontName name, Serif)]"

definition classifyInOrder :: "string \<Rightarrow> FontCategory" where
  "classifyInOrder name = firstMatch classifyRules SansSerif name"

section \<open>EditStore (utils/editorStorage.ts)\<close>

text \<open>
  A JavaScript object used as a dictionary from block id to text, and a \<^verbatim>\<open>Map\<close>, are
  association lists with distinct keys: a key is looked up with \<^const>\<open>map_of\<close>, and
  assigning to a key replaces its value where the key stands or appends the pair.
\<close>

type_synonym edits = "(string \<times> string) list"

record BlockUpdate =
  bu_blockId :: string
  bu_oldText :: string
  bu_newText :: string
  bu_section :: "string option"

record StoredEdits =
  se_edits :: edits
  se_timestamp :: nat
  se_pdfName :: string
  se_isDirty :: bool

text \<open>
  The four keys of \<^verbatim>\<open>localStorage\<close>, each absent or holding a value: the edits as the
  object their JSON text parses to, the timestamp as the number its text parses to, the
  dirty flag as the truth value whose text (\<^verbatim>\<open>'true'\<close> or \<^verbatim>\<open>'false'\<close>) it holds.
\<close>

record LocalStorage =
  EDITS :: "edits option"
  TIMESTAMP :: "nat option"
  PDF_NAME :: "string option"
  DIRTY_FLAG :: "bool option"

definition emptyStorage :: LocalStorage where
  "emptyStorage = \<lparr> EDITS = None, TIMESTAMP = None, PDF_NAME = None, DIRTY_FLAG = None \<rparr>"

text \<open>\<^verbatim>\<open>!pdfName\<close> holds of a missing key and of the empty string.\<close>

definition getStoredEdits :: "LocalStorage \<Rightarrow> StoredEdits option" where
  "getStoredEdits ls =
     (case EDITS ls of
        None \<Rightarrow> None
      | Some e \<Rightarrow>
          (case TIMESTAMP ls of
             None \<Rightarrow> None
           | Some t \<Rightarrow>
               (case PDF_NAME ls of
                  None \<Rightarrow> None
                | Some n \<Rightarrow>
                    if n = [] then None
                    else Some \<lparr> se_edits = e, se_timestamp = t, se_pdfName = n,
                                se_isDirty = (DIRTY_FLAG ls = Some True) \<rparr>)))"

text \<open>The loop \<^verbatim>\<open>for (const update of updates) edits[update.blockId] = update.newText\<close>.\<close>

fun mergeUpdates :: "edits \<Rightarrow> BlockUpdate list \<Rightarrow> edits" where
  "mergeUpdates e [] = e"
| "mergeUpdates e (u # us) = mergeUpdates (AList.update (bu_blockId u) (bu_newText u) e) us"

text \<open>\<^verbatim>\<open>saveEditsToStorage(updates, pdfName, markDirty)\<close>; \<open>now\<close> is \<^verbatim>\<open>Date.now()\<close>.\<close>

definition saveEditsToStorage :: "BlockUpdate list \<Rightarrow> string \<Rightarrow> bool \<Rightarrow> nat \<Rightarrow> LocalStorage \<Rightarrow> LocalStorage" where
  "saveEditsToStorage updates pdfName markDirty now ls =
     (let existing = getStoredEdits ls;
          edits0 = (case existing of
                      None \<Rightarrow> []
                    | Some se \<Rightarrow> if se_pdfName se = pdfName then se_edits se else []);
          edits1 = mergeUpdates edits0 updates
      in ls \<lparr> EDITS := Some edits1, TIMESTAMP := Some now, PDF_NAME := Some pdfName,
              DIRTY_FLAG := Some markDirty \<rparr>)"

definition markEditsSynced :: "nat \<Rightarrow> LocalStorage \<Rightarrow> LocalStorage" where
  "markEditsSynced now ls = ls \<lparr> DIRTY_FLAG := Some False, TIMESTAMP := Some now \<rparr>"

definition markEditsDirty :: "LocalStorage \<Rightarrow> LocalStorage" where
  "markEditsDirty ls = ls \<lparr> DIRTY_FLAG := Some True \<rparr>"

definition clearStoredEdits :: "LocalStorage \<Rightarrow> LocalStorage" where
  "clearStoredEdits ls = ls \<lparr> EDITS := None, TIMESTAMP := None, PDF_NAME := None, DIRTY_FLAG := None \<rparr>"

text \<open>A stored record for one document, used as a concrete input below.\<close>

definition storageA :: LocalStorage where
  "storageA = \<lparr> EDITS = Some [(''block-1-0'', ''2025'')], TIMESTAMP = Some 1,
                 PDF_NAME = Some ''a.pdf'', DIRTY_FLAG = Some True \<rparr>"

definition updateB :: BlockUpdate where
  "updateB = \<lparr> bu_blockId = ''block-1-1'', bu_oldText = ''Engineer'', bu_newText = ''Developer'',
               bu_section = None \<rparr>"

section \<open>Reconciler\<close>

subsection \<open>DocumentCanvas: \<^verbatim>\<open>getResolvedText\<close>\<close>

text \<open>
  \<open>updatedBlocks\<close> is the optional property of the component, a \<^verbatim>\<open>Map\<close> of the
  texts the backend has saved. A stored text counts when it is a non-empty string
  (\<^verbatim>\<open>storedEdits.edits[blockId]\<close> as a condition).
\<close>

definition getResolvedText :: "edits option \<Rightarrow> LocalStorage \<Rightarrow> string \<Rightarrow> string \<Rightarrow> string" where
  "getResolvedText updatedBlocks ls blockId originalText =
     (case (case updatedBlocks of None \<Rightarrow> None | Some m \<Rightarrow> map_of m blockId) of
        Some t \<Rightarrow> t
      | None \<Rightarrow>
          (case getStoredEdits ls of
             None \<Rightarrow> originalText
           | Some se \<Rightarrow>
               (case map_of (se_edits se) blockId of
                  None \<Rightarrow> originalText
                | Some t \<Rightarrow> if t \<noteq> [] then t else originalText)))"

subsection \<open>editorApi: \<^verbatim>\<open>extractPDFBlocks\<close>\<close>

datatype BlockType = Header | Paragraph | Bullet | Contact | DateEntry

record TextBlock =
  tb_id :: string
  tb_text :: string
  tb_x :: real
  tb_y :: real
  tb_width :: real
  tb_height :: real
  tb_page :: int
  tb_font_size :: real
  tb_font_name :: string
  tb_block_type :: BlockType
  tb_section :: "string option"

text \<open>
  What a \<^verbatim>\<open>fetch\<close> gives: the promise is rejected, or the response is not ok (with the
  \<^verbatim>\<open>detail\<close> of its body, if any), or it is ok and carries a body.
\<close>

datatype 'a Fetched = Rejected | NotOk "string option" | Ok 'a

text \<open>The body of the extraction response: \<^verbatim>\<open>success\<close> and the blocks of \<^verbatim>\<open>data\<close>.\<close>

record ExtractionBody =
  eb_success :: bool
  eb_blocks :: "TextBlock list"

datatype ExtractError = FetchFailed | Failed string

text \<open>
  The callback of \<^verbatim>\<open>blocks.map\<close> in both merges: a block whose id has a non-empty text
  in the dictionary takes that text.
\<close>

definition applyEdit :: "edits \<Rightarrow> TextBlock \<Rightarrow> TextBlock" where
  "applyEdit e block =
     (case map_of e (tb_id block) of
        None \<Rightarrow> block
      | Some t \<Rightarrow> if t \<noteq> [] then block \<lparr> tb_text := t \<rparr> else block)"

text \<open>
  The second fetch asks the backend for its saved edits; its body is the \<^verbatim>\<open>edits\<close>
  field, absent or a dictionary. A failure of that fetch is caught and the blocks stay as
  they are. The result is the \<^verbatim>\<open>blocks\<close> of \<^verbatim>\<open>result.data\<close>; the other fields of
  \<^verbatim>\<open>data\<close> are returned as received.
\<close>

definition mergeBackendEdits :: "(edits option) Fetched \<Rightarrow> TextBlock list \<Rightarrow> TextBlock list" where
  "mergeBackendEdits editsResponse bs =
     (case editsResponse of
        Ok body \<Rightarrow>
          (let savedEdits = (case body of None \<Rightarrow> [] | Some e \<Rightarrow> e)
           in if savedEdits \<noteq> [] then map (applyEdit savedEdits) bs else bs)
      | _ \<Rightarrow> bs)"

definition extractPDFBlocks ::
  "string \<Rightarrow> ExtractionBody Fetched \<Rightarrow> LocalStorage \<Rightarrow> (edits option) Fetched \<Rightarrow> ExtractError + TextBlock list" where
  "extractPDFBlocks fileName response ls editsResponse =
     (case response of
        Rejected \<Rightarrow> Inl FetchFailed
      | NotOk detail \<Rightarrow>
          Inl (Failed (case detail of None \<Rightarrow> ''Failed to extract PDF blocks''
                                   | Some d \<Rightarrow> if d \<noteq> [] then d else ''Failed to extract PDF blocks''))
      | Ok result \<Rightarrow>
          if \<not> eb_success result then Inl (Failed ''PDF extraction failed'')
          else
            (case getStoredEdits ls of
               None \<Rightarrow> Inr (mergeBackendEdits editsResponse (eb_blocks result))
             | Some storedEdits \<Rightarrow>
                 if se_pdfName storedEdits = fileName \<and> se_isDirty storedEdits
                 then Inr (map (applyEdit (se_edits storedEdits)) (eb_blocks result))
                 else Inr (mergeBackendEdits editsResponse (eb_blocks result))))"

text \<open>Concrete inputs: a block, a local record and a remote edit set that disagree on it.\<close>

definition blockOne :: TextBlock where
  "blockOne = \<lparr> tb_id = ''block-1-0'', tb_text = ''2024'', tb_x = 10, tb_y = 10, tb_width = 40,
                tb_height = 12, tb_page = 0, tb_font_size = 12, tb_font_name = ''Helvetica'',
                tb_block_type = DateEntry, tb_section = None \<rparr>"

definition storageCurrent :: LocalStorage where
  "storageCurrent = \<lparr> EDITS = Some [(''block-1-0'', ''2025'')], TIMESTAMP = Some 1,
                       PDF_NAME = Some ''current_resume'', DIRTY_FLAG = Some True \<rparr>"

definition remoteEdits :: edits where
  "remoteEdits = [(''block-1-0'', ''2023'')]"

section \<open>OverlayController (DocumentCanvas)\<close>

record ResumeBlock =
  rb_id :: string
  rb_text :: string
  rb_section :: string
  rb_spanIndex :: nat
  rb_x :: real
  rb_y :: real
  rb_width :: real
  rb_height :: real
  rb_fontSize :: real
  rb_fontFamily :: string
  rb_isEdited :: bool

text \<open>
  The mutable cells of the component. A span of the text layer is named by a string:
  \<open>spanText\<close> is the \<^verbatim>\<open>textContent\<close> of each span, \<open>blockMap\<close> the block of each
  span (\<^verbatim>\<open>blockMapRef\<close>), \<open>blocksById\<close> the blocks by their id (\<^verbatim>\<open>blocksByIdRef\<close>,
  which holds the same objects), \<open>activeSpan\<close> the span that has the focus.
  \<open>storage\<close> is the browser's \<^verbatim>\<open>localStorage\<close>; \<open>textChanges\<close> and \<open>errors\<close>
  record the calls of the host's \<^verbatim>\<open>onTextChange\<close> and \<^verbatim>\<open>onError\<close>.
\<close>

record Canvas =
  isLocked :: bool
  activeSpan :: "string option"
  spanText :: "(string \<times> string) list"
  blockMap :: "(string \<times> ResumeBlock) list"
  blocksById :: "(string \<times> ResumeBlock) list"
  pendingChanges :: "string list"
  pendingSaves :: "(string \<times> BlockUpdate) list"
  originalTextRef :: "(string \<times> string) list"
  isSaving :: bool
  hasPendingChanges :: bool
  storage :: LocalStorage
  textChanges :: "(string \<times> string \<times> string) list"
  errors :: "string list"

text \<open>\<^verbatim>\<open>span.textContent || ''\<close>\<close>

definition textContent :: "Canvas \<Rightarrow> string \<Rightarrow> string" where
  "textContent s spanEl = (case map_of (spanText s) spanEl of None \<Rightarrow> [] | Some t \<Rightarrow> t)"

text \<open>
  \<^verbatim>\<open>getSpanAndBlock\<close>: the target of an event is a span of the text layer or not
  (\<open>None\<close>), and the span has a block or not.
\<close>

definition getSpanAndBlock :: "Canvas \<Rightarrow> string option \<Rightarrow> (string \<times> ResumeBlock) option" where
  "getSpanAndBlock s target =
     (case target of
        None \<Rightarrow> None
      | Some spanEl \<Rightarrow> (case map_of (blockMap s) spanEl of None \<Rightarrow> None | Some block \<Rightarrow> Some (spanEl, block)))"

subsection \<open>Saving\<close>

text \<open>
  \<^verbatim>\<open>saveChanges\<close> is an asynchronous function: it runs up to its \<^verbatim>\<open>await\<close>, other
  events of the component may run while the host's promises are pending, and it goes on
  when they are settled. The host's \<^verbatim>\<open>onBlockSave\<close> is absent or a function; its promise
  for an update is fulfilled (\<open>True\<close>) or rejected. All the calls are made before any
  answer is awaited (\<^verbatim>\<open>updates.map\<close> inside \<^verbatim>\<open>Promise.all\<close>).

  The first part either returns at once (\<open>Returned\<close>: the guard, or no callback and so
  nothing to await) or stops at the \<^verbatim>\<open>await\<close> with \<^verbatim>\<open>isSavingRef\<close> set
  (\<open>Awaiting\<close>: the updates handed to \<^verbatim>\<open>onBlockSave\<close>, and whether all their promises
  are fulfilled).
\<close>

datatype FlushStep = Returned bool | Awaiting "BlockUpdate list" bool

definition saveChangesStart :: "(BlockUpdate \<Rightarrow> bool) option \<Rightarrow> Canvas \<Rightarrow> FlushStep \<times> Canvas" where
  "saveChangesStart onBlockSave s =
     (if pendingSaves s = [] \<or> isSaving s then (Returned True, s)
      else
        (let s1 = s \<lparr> isSaving := True \<rparr>;
             updates = map snd (pendingSaves s1)
         in case onBlockSave of
              None \<Rightarrow>
                (Returned True,
                 s1 \<lparr> pendingSaves := [], pendingChanges := [], hasPendingChanges := False,
                      isSaving := False \<rparr>)
            | Some saveCallback \<Rightarrow> (Awaiting updates (list_all saveCallback updates), s1)))"

text \<open>
  The second part, on the state the component is in when the promises are settled: on
  success the whole queue is cleared, on failure the error is reported; in both cases
  \<^verbatim>\<open>isSavingRef\<close> is reset. The result is the value \<^verbatim>\<open>saveChanges\<close> returns.
\<close>

definition saveChangesSettle :: "bool \<Rightarrow> Canvas \<Rightarrow> bool \<times> Canvas" where
  "saveChangesSettle allSaved s =
     (if allSaved
      then (True,
            s \<lparr> pendingSaves := [], pendingChanges := [], hasPendingChanges := False,
                isSaving := False \<rparr>)
      else (False, s \<lparr> errors := errors s @ [''save''], isSaving := False \<rparr>))"

text \<open>
  A call of \<^verbatim>\<open>saveChanges\<close> during which no other event runs: the value returned, the
  updates handed to \<^verbatim>\<open>onBlockSave\<close>, and the state after.
\<close>

definition saveChanges ::
  "(BlockUpdate \<Rightarrow> bool) option \<Rightarrow> Canvas \<Rightarrow> bool \<times> BlockUpdate list \<times> Canvas" where
  "saveChanges onBlockSave s =
     (case saveChangesStart onBlockSave s of
        (Returned r, s') \<Rightarrow> (r, [], s')
      | (Awaiting updates allSaved, s') \<Rightarrow>
          (case saveChangesSettle allSaved s' of (r, s'') \<Rightarrow> (r, updates, s'')))"

definition queueBlockSave :: "string \<Rightarrow> string \<Rightarrow> string \<Rightarrow> string option \<Rightarrow> Canvas \<Rightarrow> Canvas" where
  "queueBlockSave blockId oldText newText section s =
     (if oldText = newText then s
      else s \<lparr> pendingSaves :=
                 AList.update blockId
                   \<lparr> bu_blockId = blockId, bu_oldText = oldText, bu_newText = newText,
                     bu_section = section \<rparr> (pendingSaves s),
               pendingChanges := List.insert blockId (pendingChanges s),
               hasPendingChanges := True \<rparr>)"

text \<open>The methods of the imperative handle other than \<^verbatim>\<open>saveChanges\<close>.\<close>

definition hasPendingChangesNow :: "Canvas \<Rightarrow> bool" where
  "hasPendingChangesNow s = (pendingSaves s \<noteq> [])"

definition getPendingChanges :: "Canvas \<Rightarrow> BlockUpdate list" where
  "getPendingChanges s = map snd (pendingSaves s)"

definition getCurrentBlocks :: "Canvas \<Rightarrow> ResumeBlock list" where
  "getCurrentBlocks s = map snd (blocksById s)"

text \<open>
  A \<^verbatim>\<open>Map\<close> has one entry for a key, and \<^verbatim>\<open>queueBlockSave\<close>, the only writer of the
  queue, stores under a key an update of that block.
\<close>

definition wfQueue :: "(string \<times> BlockUpdate) list \<Rightarrow> bool" where
  "wfQueue q = (distinct (map fst q) \<and> list_all (\<lambda>(k, u). bu_blockId u = k) q)"

subsection \<open>Events of the text layer\<close>

text \<open>
  \<^verbatim>\<open>handleBlur\<close>, the listener of \<^verbatim>\<open>focusout\<close>; \<open>now\<close> is \<^verbatim>\<open>Date.now()\<close>. The
  styles it sets on the span are not part of the state.
\<close>

definition handleBlur :: "nat \<Rightarrow> string option \<Rightarrow> Canvas \<Rightarrow> Canvas" where
  "handleBlur now target s =
     (case getSpanAndBlock s target of
        None \<Rightarrow> s
      | Some (spanEl, block) \<Rightarrow>
          (let newText = textContent s spanEl;
               originalText =
                 (case map_of (originalTextRef s) (rb_id block) of
                    None \<Rightarrow> rb_text block
                  | Some t \<Rightarrow> if t \<noteq> [] then t else rb_text block);
               hasChanged = (newText \<noteq> originalText)
           in if hasChanged
              then
                (let block' = block \<lparr> rb_text := newText, rb_isEdited := True \<rparr>;
                     s1 = s \<lparr> blockMap := AList.update spanEl block' (blockMap s),
                               blocksById := AList.update (rb_id block') block' (blocksById s),
                               originalTextRef := AList.update (rb_id block') newText (originalTextRef s),
                               storage :=
                                 markEditsDirty
                                   (saveEditsToStorage
                                      [\<lparr> bu_blockId = rb_id block', bu_oldText = originalText,
                                         bu_newText = newText, bu_section = Some (rb_section block') \<rparr>]
                                      ''current_resume'' True now (storage s)) \<rparr>;
                     s2 = queueBlockSave (rb_id block') originalText newText (Some (rb_section block')) s1
                 in s2 \<lparr> textChanges := textChanges s2 @ [(rb_id block', originalText, newText)] \<rparr>)
              else s))"

text \<open>
  \<^verbatim>\<open>span.blur()\<close>: the span that has the focus loses it and \<^verbatim>\<open>focusout\<close> is dispatched
  to it at once; on a span without the focus nothing happens.
\<close>

definition blur :: "nat \<Rightarrow> string \<Rightarrow> Canvas \<Rightarrow> Canvas" where
  "blur now spanEl s =
     (if activeSpan s = Some spanEl then handleBlur now (Some spanEl) (s \<lparr> activeSpan := None \<rparr>) else s)"

text \<open>\<^verbatim>\<open>handleFocus\<close>, the listener of \<^verbatim>\<open>focusin\<close>, with the arrival of the focus.\<close>

definition handleFocus :: "nat \<Rightarrow> string \<Rightarrow> Canvas \<Rightarrow> Canvas" where
  "handleFocus now spanEl s0 =
     (let s = s0 \<lparr> activeSpan := Some spanEl \<rparr>
      in if isLocked s then blur now spanEl s
         else
           (case getSpanAndBlock s (Some spanEl) of
              None \<Rightarrow> s
            | Some (sp, block) \<Rightarrow>
                s \<lparr> originalTextRef := AList.update (rb_id block) (textContent s sp) (originalTextRef s) \<rparr>))"

text \<open>
  An input of the user in the focused span: its text becomes \<open>txt\<close>, and the mutation
  observer (\<^verbatim>\<open>handleTextMutation\<close>) notes the block when the text differs from the block's.
\<close>

definition handleInput :: "string \<Rightarrow> string \<Rightarrow> Canvas \<Rightarrow> Canvas" where
  "handleInput spanEl txt s0 =
     (let s = s0 \<lparr> spanText := AList.update spanEl txt (spanText s0) \<rparr>
      in case map_of (blockMap s) spanEl of
           None \<Rightarrow> s
         | Some block \<Rightarrow>
             if textContent s spanEl \<noteq> rb_text block
             then s \<lparr> pendingChanges := List.insert (rb_id block) (pendingChanges s) \<rparr>
             else s)"

text \<open>\<^verbatim>\<open>handleKeyDown\<close>, for the key \<open>key\<close> pressed with or without Shift.\<close>

definition handleKeyDown :: "nat \<Rightarrow> string \<Rightarrow> bool \<Rightarrow> string option \<Rightarrow> Canvas \<Rightarrow> Canvas" where
  "handleKeyDown now key shiftKey target s =
     (if isLocked s then s
      else
        (case getSpanAndBlock s target of
           None \<Rightarrow> s
         | Some (spanEl, block) \<Rightarrow>
             (let s1 = (if key = ''Enter'' \<and> \<not> shiftKey then blur now spanEl s else s);
                  s2 = (if key = ''Escape''
                        then
                          (let s' = (case map_of (originalTextRef s1) (rb_id block) of
                                       None \<Rightarrow> s1
                                     | Some originalText \<Rightarrow>
                                         s1 \<lparr> spanText := AList.update spanEl originalText (spanText s1) \<rparr>)
                           in blur now spanEl s')
                        else s1)
              in s2)))"

text \<open>Concrete states of the canvas, used as inputs below.\<close>

definition engineerBlock :: ResumeBlock where
  "engineerBlock = \<lparr> rb_id = ''block-1-0'', rb_text = ''Engineer'', rb_section = ''content'',
                     rb_spanIndex = 0, rb_x = 10, rb_y = 10, rb_width = 40, rb_height = 12,
                     rb_fontSize = 12, rb_fontFamily = ''Helvetica'', rb_isEdited = False \<rparr>"

definition canvasIdle :: Canvas where
  "canvasIdle = \<lparr> isLocked = False, activeSpan = None,
                  spanText = [(''span0'', ''Engineer'')], blockMap = [(''span0'', engineerBlock)],
                  blocksById = [(''block-1-0'', engineerBlock)], pendingChanges = [],
                  pendingSaves = [], originalTextRef = [(''block-1-0'', ''Engineer'')],
                  isSaving = False, hasPendingChanges = False, storage = emptyStorage,
                  textChanges = [], errors = [] \<rparr>"

text \<open>The span has the focus and the user has typed Enginer over Engineer.\<close>

definition canvasEditing :: Canvas where
  "canvasEditing = canvasIdle \<lparr> activeSpan := Some ''span0'', spanText := [(''span0'', ''Enginer'')],
                                 pendingChanges := [''block-1-0''] \<rparr>"

definition updateOne :: BlockUpdate where
  "updateOne = \<lparr> bu_blockId = ''block-1-0'', bu_oldText = ''2024'', bu_newText = ''2025'',
                 bu_section = None \<rparr>"

text \<open>A save is in flight and an update is waiting in the queue.\<close>

definition canvasSaving :: Canvas where
  "canvasSaving = canvasIdle \<lparr> pendingSaves := [(''block-1-0'', updateOne)],
                                pendingChanges := [''block-1-0''], hasPendingChanges := True,
                                isSaving := True \<rparr>"

text \<open>
  An update of another block waits in the queue and no save is in flight; then a flush
  has started with a callback whose promises will be fulfilled, and while it awaits them
  two saves are queued for block-1-0.
\<close>

definition canvasQueued :: Canvas where
  "canvasQueued = canvasIdle \<lparr> pendingSaves := [(''block-1-1'', updateB)],
                                pendingChanges := [''block-1-1''], hasPendingChanges := True \<rparr>"

definition latestUpdate :: BlockUpdate where
  "latestUpdate = \<lparr> bu_blockId = ''block-1-0'', bu_oldText = ''2025'', bu_newText = ''2026'',
                    bu_section = None \<rparr>"

definition canvasQueuedInFlight :: Canvas where
  "canvasQueuedInFlight =
     queueBlockSave ''block-1-0'' ''2025'' ''2026'' None
       (queueBlockSave ''block-1-0'' ''2024'' ''2025'' None
          (snd (saveChangesStart (Some (\<lambda>u. True)) canvasQueued)))"

section \<open>Exporter (utils/pdfExport.ts)\<close>

text \<open>
  The state of a block held by the host (\<^verbatim>\<open>EditableBlockState\<close>) is given without its
  \<^verbatim>\<open>weakness\<close>, which the exporter does not read.
\<close>

record EditableBlockState =
  es_id :: string
  es_originalText :: string
  es_currentText :: string
  es_isEditing :: bool
  es_isDirty :: bool

datatype StandardFont =
    TimesRoman | TimesRomanBold | TimesRomanItalic | TimesRomanBoldItalic
  | Helvetica | HelveticaBold | HelveticaOblique | HelveticaBoldOblique
  | Courier | CourierBold | CourierOblique | CourierBoldOblique

text \<open>
  A document as the PDF library presents it: its pages, each with a height and a content,
  and the fonts embedded in it. The content of a page is a sequence of pieces: what the
  source document holds there (\<open>Fragment\<close>) and what has been drawn over it, a white
  rectangle (\<open>Rectangle x y width height\<close>) or a black text
  (\<open>DrawText text x y size font\<close>).
\<close>

datatype DrawOp =
    Fragment string
  | Rectangle real real real real
  | DrawText string real real real StandardFont

record PDFPage =
  pg_height :: real
  pg_content :: "DrawOp list"

record PDFDocument =
  pd_pages :: "PDFPage list"
  pd_fonts :: "StandardFont list"

datatype ExportError = LoadFailed | EncodingFailed

text \<open>\<^verbatim>\<open>pages[block.page]\<close>: undefined outside the array.\<close>

definition pageAt :: "PDFPage list \<Rightarrow> int \<Rightarrow> PDFPage option" where
  "pageAt pages i = (if 0 \<le> i \<and> i < int (length pages) then Some (pages ! nat i) else None)"

definition getEmbeddedFont :: "ParsedFontInfo \<Rightarrow> StandardFont" where
  "getEmbeddedFont fontInfo =
     (if pf_category fontInfo = Serif then
        (if pf_weight fontInfo = WBold \<and> pf_style fontInfo = SItalic then TimesRomanBoldItalic
         else if pf_weight fontInfo = WBold then TimesRomanBold
         else if pf_style fontInfo = SItalic then TimesRomanItalic
         else TimesRoman)
      else if pf_category fontInfo = Monospace then
        (if pf_weight fontInfo = WBold \<and> pf_style fontInfo = SItalic then CourierBoldOblique
         else if pf_weight fontInfo = WBold then CourierBold
         else if pf_style fontInfo = SItalic then CourierOblique
         else Courier)
      else
        (if pf_weight fontInfo = WBold \<and> pf_style fontInfo = SItalic then HelveticaBoldOblique
         else if pf_weight fontInfo = WBold then HelveticaBold
         else if pf_style fontInfo = SItalic then HelveticaOblique
         else Helvetica))"

definition embedAllFonts :: "StandardFont list" where
  "embedAllFonts =
     [TimesRoman, TimesRomanBold, TimesRomanItalic, TimesRomanBoldItalic,
      Helvetica, HelveticaBold, HelveticaOblique, HelveticaBoldOblique,
      Courier, CourierBold, CourierOblique, CourierBoldOblique]"

text \<open>
  The loop over the blocks of the exporter that matches fonts. \<open>widthOfTextAtSize\<close> is
  the library's measure of a text in a font at a size; it has no value for a text the font
  cannot encode, where the library throws and the export fails.
\<close>

fun exportBlocks ::
  "(StandardFont \<Rightarrow> string \<Rightarrow> real \<Rightarrow> real option) \<Rightarrow> (string \<times> EditableBlockState) list \<Rightarrow>
   TextBlock list \<Rightarrow> PDFPage list \<Rightarrow> ExportError + PDFPage list" where
  "exportBlocks widthOfTextAtSize blockStates [] pages = Inr pages"
| "exportBlocks widthOfTextAtSize blockStates (block # rest) pages =
     (case map_of blockStates (tb_id block) of
        None \<Rightarrow> exportBlocks widthOfTextAtSize blockStates rest pages
      | Some state \<Rightarrow>
          if \<not> es_isDirty state then exportBlocks widthOfTextAtSize blockStates rest pages
          else
            (case pageAt pages (tb_page block) of
               None \<Rightarrow> exportBlocks widthOfTextAtSize blockStates rest pages
             | Some page \<Rightarrow>
                 (let currentText = es_currentText state;
                      pageHeight = pg_height page;
                      x = tb_x block;
                      y = pageHeight - tb_y block - tb_height block;
                      font = getEmbeddedFont (getFontInfo (tb_font_name block));
                      fontSize = tb_font_size block
                  in case widthOfTextAtSize font currentText fontSize of
                       None \<Rightarrow> Inl EncodingFailed
                     | Some textWidth \<Rightarrow>
                         (let coverWidth = max (tb_width block) textWidth + 10;
                              page' = page \<lparr> pg_content := pg_content page @
                                        [Rectangle (x - 4) (y - fontSize * 0.3) coverWidth (fontSize * 1.4),
                                         DrawText currentText x y fontSize font] \<rparr>
                          in exportBlocks widthOfTextAtSize blockStates rest
                               (pages [nat (tb_page block) := page'])))))"

text \<open>
  \<^verbatim>\<open>exportToPDF\<close> of the exporter that matches fonts. \<open>loaded\<close> is what the library
  reads from the original bytes: a document, or nothing when the bytes are malformed. The
  result stands for the bytes the library writes for the document.
\<close>

definition exportToPDF ::
  "(StandardFont \<Rightarrow> string \<Rightarrow> real \<Rightarrow> real option) \<Rightarrow> PDFDocument option \<Rightarrow> TextBlock list \<Rightarrow>
   (string \<times> EditableBlockState) list \<Rightarrow> ExportError + PDFDocument" where
  "exportToPDF widthOfTextAtSize loaded blocks blockStates =
     (case loaded of
        None \<Rightarrow> Inl LoadFailed
      | Some pdfDoc \<Rightarrow>
          (let embedded = pdfDoc \<lparr> pd_fonts := pd_fonts pdfDoc @ embedAllFonts \<rparr>
           in case exportBlocks widthOfTextAtSize blockStates blocks (pd_pages embedded) of
                Inl e \<Rightarrow> Inl e
              | Inr pages' \<Rightarrow> Inr (embedded \<lparr> pd_pages := pages' \<rparr>)))"

text \<open>\<^verbatim>\<open>text.split('\n')\<close>\<close>

fun splitLines :: "string \<Rightarrow> string list" where
  "splitLines [] = [[]]"
| "splitLines (c # cs) =
     (if c = CHR 0x0A then [] # splitLines cs
      else (case splitLines cs of [] \<Rightarrow> [[c]] | l # ls \<Rightarrow> (c # l) # ls))"

text \<open>
  The first exporter, which writes in Helvetica: the loop over the lines of a text and the
  loop over the blocks.
\<close>

fun drawLines ::
  "(StandardFont \<Rightarrow> string \<Rightarrow> real \<Rightarrow> real option) \<Rightarrow> StandardFont \<Rightarrow> real \<Rightarrow> real \<Rightarrow>
   string list \<Rightarrow> real \<Rightarrow> DrawOp list \<Rightarrow> ExportError + DrawOp list" where
  "drawLines widthOfTextAtSize useFont x fontSize [] currentY content = Inr content"
| "drawLines widthOfTextAtSize useFont x fontSize (line # lines) currentY content =
     (case widthOfTextAtSize useFont line fontSize of
        None \<Rightarrow> Inl EncodingFailed
      | Some w \<Rightarrow>
          drawLines widthOfTextAtSize useFont x fontSize lines (currentY - fontSize * 1.2)
            (content @ [DrawText line x currentY fontSize useFont]))"

fun exportBlocksBasic ::
  "(StandardFont \<Rightarrow> string \<Rightarrow> real \<Rightarrow> real option) \<Rightarrow> (string \<times> EditableBlockState) list \<Rightarrow>
   TextBlock list \<Rightarrow> PDFPage list \<Rightarrow> ExportError + PDFPage list" where
  "exportBlocksBasic widthOfTextAtSize blockStates [] pages = Inr pages"
| "exportBlocksBasic widthOfTextAtSize blockStates (block # rest) pages =
     (case map_of blockStates (tb_id block) of
        None \<Rightarrow> exportBlocksBasic widthOfTextAtSize blockStates rest pages
      | Some state \<Rightarrow>
          if \<not> es_isDirty state then exportBlocksBasic widthOfTextAtSize blockStates rest pages
          else
            (case pageAt pages (tb_page block) of
               None \<Rightarrow> exportBlocksBasic widthOfTextAtSize blockStates rest pages
             | Some page \<Rightarrow>
                 (let pageHeight = pg_height page;
                      x = tb_x block;
                      y = pageHeight - tb_y block - tb_height block;
                      useFont = (if includesStr (toLowerCase (tb_font_name block)) ''bold''
                                 then HelveticaBold else Helvetica);
                      fontSize = tb_font_size block;
                      covered = pg_content page @
                                  [Rectangle (x - 1) (y - 2) (tb_width block + 2) (tb_height block + 4)]
                  in case drawLines widthOfTextAtSize useFont x fontSize
                            (splitLines (es_currentText state)) (y + tb_height block - fontSize) covered of
                       Inl e \<Rightarrow> Inl e
                     | Inr content' \<Rightarrow>
                         exportBlocksBasic widthOfTextAtSize blockStates rest
                           (pages [nat (tb_page block) := page \<lparr> pg_content := content' \<rparr>]))))"

definition exportToPDFBasic ::
  "(StandardFont \<Rightarrow> string \<Rightarrow> real \<Rightarrow> real option) \<Rightarrow> PDFDocument option \<Rightarrow> TextBlock list \<Rightarrow>
   (string \<times> EditableBlockState) list \<Rightarrow> ExportError + PDFDocument" where
  "exportToPDFBasic widthOfTextAtSize loaded blocks blockStates =
     (case loaded of
        None \<Rightarrow> Inl LoadFailed
      | Some pdfDoc \<Rightarrow>
          (let embedded = pdfDoc \<lparr> pd_fonts := pd_fonts pdfDoc @ [Helvetica, HelveticaBold] \<rparr>
           in case exportBlocksBasic widthOfTextAtSize blockStates blocks (pd_pages embedded) of
                Inl e \<Rightarrow> Inl e
              | Inr pages' \<Rightarrow> Inr (embedded \<lparr> pd_pages := pages' \<rparr>)))"

text \<open>A one-page document, its block and the state of the block before any edit.\<close>

definition onePageDoc :: PDFDocument where
  "onePageDoc = \<lparr> pd_pages = [\<lparr> pg_height = 792, pg_content = [Fragment ''2024''] \<rparr>],
                  pd_fonts = [] \<rparr>"

definition cleanState :: EditableBlockState where
  "cleanState = \<lparr> es_id = ''block-1-0'', es_originalText = ''2024'', es_currentText = ''2024'',
                  es_isEditing = False, es_isDirty = False \<rparr>"

section \<open>BlockExtractor (\<^verbatim>\<open>renderPage\<close> of DocumentCanvas)\<close>

text \<open>
  An affine map in the six-number form of the rendering library,
  \<^verbatim>\<open>[a, b, c, d, e, f]\<close>, and the library's \<^verbatim>\<open>Util.transform(m1, m2)\<close>, which composes
  two of them.
\<close>

record Matrix =
  m0 :: real
  m1 :: real
  m2 :: real
  m3 :: real
  m4 :: real
  m5 :: real

definition transform :: "Matrix \<Rightarrow> Matrix \<Rightarrow> Matrix" where
  "transform p q =
     \<lparr> m0 = m0 p * m0 q + m2 p * m1 q,
       m1 = m1 p * m0 q + m3 p * m1 q,
       m2 = m0 p * m2 q + m2 p * m3 q,
       m3 = m1 p * m2 q + m3 p * m3 q,
       m4 = m0 p * m4 q + m2 p * m5 q + m4 p,
       m5 = m1 p * m4 q + m3 p * m5 q + m5 p \<rparr>"

record TextItem =
  ti_str :: string
  ti_transform :: Matrix
  ti_width :: real
  ti_height :: real
  ti_fontName :: string

text \<open>
  An item of the text content is a positioned text run, or a marked-content item, which
  has no \<^verbatim>\<open>str\<close>.
\<close>

datatype ContentItem = TextRun TextItem | MarkedContent

text \<open>
  What the loop over the items reads besides the items: the transform of the viewport,
  the scale and the page number of the component, the texts of the spans that were on
  screen before (\<^verbatim>\<open>savedTexts\<close>), the backend-saved texts and the local storage.
\<close>

record RenderInput =
  ri_viewportTransform :: Matrix
  ri_scale :: real
  ri_pageNumber :: nat
  ri_savedTexts :: edits
  ri_updatedBlocks :: "edits option"
  ri_storage :: LocalStorage

definition nextSection :: "string \<Rightarrow> string \<Rightarrow> string" where
  "nextSection sectionGuess textLower =
     (if includesStr textLower ''experience'' \<or> includesStr textLower ''work'' then ''experience''
      else if includesStr textLower ''education'' then ''education''
      else if includesStr textLower ''skill'' then ''skills''
      else if includesStr textLower ''project'' then ''projects''
      else if includesStr textLower ''summary'' \<or> includesStr textLower ''objective'' then ''summary''
      else sectionGuess)"

text \<open>
  The block made for the text run at position \<open>index\<close>, \<open>sectionGuess\<close> being the
  section after this run has been looked at.
\<close>

definition makeBlock :: "RenderInput \<Rightarrow> nat \<Rightarrow> string \<Rightarrow> TextItem \<Rightarrow> ResumeBlock" where
  "makeBlock inp index sectionGuess textItem =
     (let tx = transform (ri_viewportTransform inp) (ti_transform textItem);
          fontSize = sqrt (m0 tx * m0 tx + m1 tx * m1 tx);
          x = m4 tx;
          y = m5 tx - fontSize;
          width = ti_width textItem * ri_scale inp;
          blockId = ''block-'' @ showNat (ri_pageNumber inp) @ ''-'' @ showNat index;
          textToUse = (case map_of (ri_savedTexts inp) blockId of
                         Some t \<Rightarrow> t
                       | None \<Rightarrow> getResolvedText (ri_updatedBlocks inp) (ri_storage inp) blockId
                                   (ti_str textItem));
          wasEdited = (textToUse \<noteq> ti_str textItem)
      in \<lparr> rb_id = blockId, rb_text = textToUse, rb_section = sectionGuess, rb_spanIndex = index,
           rb_x = x, rb_y = y, rb_width = width, rb_height = fontSize, rb_fontSize = fontSize,
           rb_fontFamily = (if ti_fontName textItem \<noteq> [] then ti_fontName textItem else ''sans-serif''),
           rb_isEdited = wasEdited \<rparr>)"

text \<open>
  \<^verbatim>\<open>textContent.items.forEach((item, index) => ...)\<close>, from position \<open>index\<close> on with
  the section guessed so far: the blocks pushed to \<^verbatim>\<open>extractedBlocks\<close>, in order.
\<close>

fun extractItems :: "RenderInput \<Rightarrow> nat \<Rightarrow> string \<Rightarrow> ContentItem list \<Rightarrow> ResumeBlock list" where
  "extractItems inp index sectionGuess [] = []"
| "extractItems inp index sectionGuess (MarkedContent # items) =
     extractItems inp (index + 1) sectionGuess items"
| "extractItems inp index sectionGuess (TextRun textItem # items) =
     (if trim (ti_str textItem) = [] then extractItems inp (index + 1) sectionGuess items
      else
        (let sectionGuess' = nextSection sectionGuess (toLowerCase (ti_str textItem))
         in makeBlock inp index sectionGuess' textItem #
            extractItems inp (index + 1) sectionGuess' items))"

definition extractedBlocks :: "RenderInput \<Rightarrow> ContentItem list \<Rightarrow> ResumeBlock list" where
  "extractedBlocks inp items = extractItems inp 0 ''content'' items"

text \<open>A page at scale 1 with a blank run and a run of text of size 12.\<close>

definition viewInput :: RenderInput where
  "viewInput = \<lparr> ri_viewportTransform = \<lparr> m0 = 1, m1 = 0, m2 = 0, m3 = -1, m4 = 0, m5 = 792 \<rparr>,
                 ri_scale = 1, ri_pageNumber = 1, ri_savedTexts = [], ri_updatedBlocks = None,
                 ri_storage = emptyStorage \<rparr>"

definition blankRun :: TextItem where
  "blankRun = \<lparr> ti_str = '' '', ti_transform = \<lparr> m0 = 12, m1 = 0, m2 = 0, m3 = 12, m4 = 10, m5 = 770 \<rparr>,
                ti_width = 3, ti_height = 12, ti_fontName = ''g_d0_f1'' \<rparr>"

definition yearRun :: TextItem where
  "yearRun = \<lparr> ti_str = ''2024'', ti_transform = \<lparr> m0 = 12, m1 = 0, m2 = 0, m3 = 12, m4 = 10, m5 = 770 \<rparr>,
               ti_width = 40, ti_height = 12, ti_fontName = ''g_d0_f1'' \<rparr>"

section \<open>Remote saves (services/editorApi.ts)\<close>

datatype SaveErrorCode = NETWORK_ERROR | SERVER_ERROR | VALIDATION_ERROR | UNKNOWN_ERROR

record SaveError =
  err_message :: string
  err_code :: SaveErrorCode
  err_details :: "string option"

text \<open>The response of the save endpoint, without its optional fields.\<close>

record UpdateResumeResponse =
  ur_success :: bool
  ur_message :: string

text \<open>
  What one \<^verbatim>\<open>fetch\<close> of the save endpoint comes to: an ok response with its body; a
  response that is not ok, with its status and the message read from it (the
  \<^verbatim>\<open>detail\<close> or \<^verbatim>\<open>message\<close> of its body, or its status text), if any; a rejection with a
  \<^verbatim>\<open>TypeError\<close>, which is how a network failure shows; an abort, which is how the timeout
  shows (\<^verbatim>\<open>AbortError\<close>); or another exception, with its message.
\<close>

datatype SaveFetch =
    FetchOk UpdateResumeResponse
  | FetchStatus nat "string option"
  | FetchTypeError
  | FetchAbort
  | FetchOther string

text \<open>
  How the promise returned by a call ends: fulfilled, rejected, the promise of the request
  already in flight under a key (which ends as that request does), or a promise that is
  never settled.
\<close>

datatype SaveOutcome =
    Resolved UpdateResumeResponse
  | Rejects SaveError
  | Joins string
  | NeverSettles

text \<open>
  The state the module works on: the keys of \<^verbatim>\<open>pendingRequests\<close>, the local storage,
  and three logs: the bodies of the requests sent, the delays of the abort timers set
  and the delays waited before a retry (milliseconds).
\<close>

record ApiState =
  pendingRequests :: "string list"
  api_storage :: LocalStorage
  requests :: "BlockUpdate list list"
  abortTimers :: "nat list"
  backoffs :: "nat list"

definition initialApi :: ApiState where
  "initialApi = \<lparr> pendingRequests = [], api_storage = emptyStorage, requests = [],
                  abortTimers = [], backoffs = [] \<rparr>"

text \<open>\<^verbatim>\<open>xs.join(sep)\<close>\<close>

fun joinWith :: "string \<Rightarrow> string list \<Rightarrow> string" where
  "joinWith sep [] = []"
| "joinWith sep [x] = x"
| "joinWith sep (x # y # ys) = x @ sep @ joinWith sep (y # ys)"

definition getRequestKey :: "BlockUpdate list \<Rightarrow> string" where
  "getRequestKey blocks = joinWith ''|'' (map (\<lambda>b. bu_blockId b @ '':'' @ bu_newText b) blocks)"

definition noChanges :: UpdateResumeResponse where
  "noChanges = \<lparr> ur_success = True, ur_message = ''No changes to save'' \<rparr>"

text \<open>The error thrown for a response that is not ok.\<close>

definition statusError :: "nat \<Rightarrow> string option \<Rightarrow> SaveError" where
  "statusError status msg =
     (let errorMessage = (case msg of None \<Rightarrow> ''Failed to save changes''
                                   | Some m \<Rightarrow> if m \<noteq> [] then m else ''Failed to save changes'')
      in \<lparr> err_message =
             (if status = 404
              then ''Save endpoint not found. Make sure backend is running on http://localhost:8000''
              else errorMessage),
           err_code = (if status = 404 then SERVER_ERROR
                       else if status = 422 then VALIDATION_ERROR
                       else SERVER_ERROR),
           err_details = Some (''HTTP '' @ showNat status) \<rparr>)"

text \<open>
  \<^verbatim>\<open>updateResumeBlocks(blocks, { retry, timeout })\<close>. \<open>network n\<close> is what the fetch
  of the request number \<open>n\<close> comes to, \<open>now\<close> is \<^verbatim>\<open>Date.now()\<close>. The entry of
  \<^verbatim>\<open>pendingRequests\<close> is deleted in the \<^verbatim>\<open>finally\<close> block, that is after the retry call
  has returned its promise: the retry call finds the key of its own caller in the map
  and returns the caller's promise, and a promise resolved with itself through another
  one is never settled.
\<close>

fun updateResumeBlocks ::
  "(nat \<Rightarrow> SaveFetch) \<Rightarrow> nat \<Rightarrow> BlockUpdate list \<Rightarrow> nat \<Rightarrow> nat \<Rightarrow> ApiState \<Rightarrow> SaveOutcome \<times> ApiState" where
  "updateResumeBlocks network now blocks retry timeout st =
     (if blocks = [] then (Resolved noChanges, st)
      else
        (let requestKey = getRequestKey blocks
         in if requestKey \<in> set (pendingRequests st) then (Joins requestKey, st)
            else
              (let st1 = st \<lparr> abortTimers := abortTimers st @ [timeout],
                              requests := requests st @ [blocks],
                              pendingRequests := requestKey # pendingRequests st \<rparr>
               in case network (length (requests st)) of
                    FetchOk result \<Rightarrow>
                      (Resolved result,
                       st1 \<lparr> api_storage :=
                               markEditsSynced now
                                 (saveEditsToStorage blocks ''current_resume'' False now (api_storage st1)),
                             pendingRequests := removeAll requestKey (pendingRequests st1) \<rparr>)
                  | FetchStatus status msg \<Rightarrow>
                      (Rejects (statusError status msg),
                       st1 \<lparr> pendingRequests := removeAll requestKey (pendingRequests st1) \<rparr>)
                  | FetchAbort \<Rightarrow>
                      (Rejects \<lparr> err_message = ''Request timed out. Please try again.'',
                                 err_code = NETWORK_ERROR, err_details = None \<rparr>,
                       st1 \<lparr> pendingRequests := removeAll requestKey (pendingRequests st1) \<rparr>)
                  | FetchTypeError \<Rightarrow>
                      if retry > 0
                      then
                        (case updateResumeBlocks network now blocks (retry - 1) timeout
                                (st1 \<lparr> backoffs := backoffs st1 @ [1000] \<rparr>) of
                           (returned, st2) \<Rightarrow>
                             ((case returned of
                                 Joins k \<Rightarrow> if k = requestKey then NeverSettles else returned
                               | _ \<Rightarrow> returned),
                              st2 \<lparr> pendingRequests := removeAll requestKey (pendingRequests st2) \<rparr>))
                      else
                        (Rejects \<lparr> err_message =
                                     ''Network error. Make sure backend is running on http://localhost:8000'',
                                   err_code = NETWORK_ERROR, err_details = None \<rparr>,
                         st1 \<lparr> pendingRequests := removeAll requestKey (pendingRequests st1) \<rparr>)
                  | FetchOther msg \<Rightarrow>
                      (Rejects \<lparr> err_message = msg, err_code = UNKNOWN_ERROR, err_details = None \<rparr>,
                       st1 \<lparr> pendingRequests := removeAll requestKey (pendingRequests st1) \<rparr>))))"

declare updateResumeBlocks.simps [simp del]

text \<open>\<^verbatim>\<open>batchUpdateBlocks\<close>, which calls with the default options: one retry, ten seconds.\<close>

definition batchUpdateBlocks ::
  "(nat \<Rightarrow> SaveFetch) \<Rightarrow> nat \<Rightarrow> BlockUpdate list \<Rightarrow> ApiState \<Rightarrow> SaveOutcome \<times> ApiState" where
  "batchUpdateBlocks network now blocks st =
     (let validBlocks =
            filter (\<lambda>block. bu_oldText block \<noteq> bu_newText block \<and> trim (bu_newText block) \<noteq> []) blocks
      in if validBlocks = [] then (Resolved noChanges, st)
         else updateResumeBlocks network now validBlocks 1 10000 st)"

text \<open>A network on which the first request times out and any later one succeeds.\<close>

definition timeoutThenOk :: "nat \<Rightarrow> SaveFetch" where
  "timeoutThenOk n = (if n = 0 then FetchAbort else FetchOk \<lparr> ur_success = True, ur_message = ''saved'' \<rparr>)"

definition timedOut :: SaveError where
  "timedOut = \<lparr> err_message = ''Request timed out. Please try again.'', err_code = NETWORK_ERROR,
                err_details = None \<rparr>"

text \<open>Two updates that change nothing: one with its text as before, one with a blank text.\<close>

definition unchangedUpdate :: BlockUpdate where
  "unchangedUpdate = \<lparr> bu_blockId = ''block-1-1'', bu_oldText = ''Engineer'', bu_newText = ''Engineer'',
                       bu_section = None \<rparr>"

definition blankUpdate :: BlockUpdate where
  "blankUpdate = \<lparr> bu_blockId = ''block-1-2'', bu_oldText = ''Skills'', bu_newText = ''  '',
                   bu_section = None \<rparr>"

section \<open>Properties of the font classifier\<close>

text \<open>
  C9. For every font identifier, the category is decided by the keyword lists in the order
  monospace, sans-serif, serif, then by the generic-identifier test (which gives serif),
  and is sans-serif when none applies. The classification is total and its result is
  always one of monospace, sans-serif and serif.
\<close>

theorem detectFontCategory_in_order:
  "detectFontCategory name = classifyInOrder name \<and>
   detectFontCategory name \<in> {Monospace, SansSerif, Serif}"
  by (simp add: detectFontCategory_def classifyInOrder_def classifyRules_def Let_def)

section \<open>Properties of the edit store\<close>

lemma getStoredEdits_saveEditsToStorage:
  "pdfName \<noteq> [] \<Longrightarrow>
   getStoredEdits (saveEditsToStorage updates pdfName markDirty now ls) =
     Some \<lparr> se_edits = mergeUpdates
                (case getStoredEdits ls of
                   None \<Rightarrow> []
                 | Some se \<Rightarrow> if se_pdfName se = pdfName then se_edits se else []) updates,
            se_timestamp = now, se_pdfName = pdfName, se_isDirty = markDirty \<rparr>"
  by (simp add: saveEditsToStorage_def getStoredEdits_def Let_def)

text \<open>
  C5, as the claim states it, fails. The store holds a record for a.pdf with an edit of
  block-1-0; a merge for b.pdf, with no clear in between, leaves a record for b.pdf that
  holds the new edit only: the edit of block-1-0 is gone.
\<close>

theorem merge_other_document_counterexample:
  "getStoredEdits storageA =
     Some \<lparr> se_edits = [(''block-1-0'', ''2025'')], se_timestamp = 1, se_pdfName = ''a.pdf'',
            se_isDirty = True \<rparr> \<and>
   getStoredEdits (saveEditsToStorage [updateB] ''b.pdf'' True 2 storageA) =
     Some \<lparr> se_edits = [(''block-1-1'', ''Developer'')], se_timestamp = 2, se_pdfName = ''b.pdf'',
            se_isDirty = True \<rparr>"
  by (simp add: saveEditsToStorage_def getStoredEdits_def storageA_def updateB_def Let_def)

text \<open>
  C5, amended. When the store holds a record for one document identity, a merge call for
  a different (non-empty) identity starts a fresh record by itself: afterwards the store
  holds a record for the new identity whose edits are those of the call merged into an
  empty dictionary, and nothing of the previous record.
\<close>

theorem merge_other_document_starts_fresh:
  assumes "getStoredEdits ls = Some se" and "se_pdfName se \<noteq> pdfName" and "pdfName \<noteq> []"
  shows "getStoredEdits (saveEditsToStorage updates pdfName markDirty now ls) =
           Some \<lparr> se_edits = mergeUpdates [] updates, se_timestamp = now,
                  se_pdfName = pdfName, se_isDirty = markDirty \<rparr>"
  using assms by (simp add: getStoredEdits_saveEditsToStorage)

theorem merge_other_document_starts_fresh_witness:
  "getStoredEdits (saveEditsToStorage [updateB] ''b.pdf'' True 2 storageA) =
     Some \<lparr> se_edits = mergeUpdates [] [updateB], se_timestamp = 2,
            se_pdfName = ''b.pdf'', se_isDirty = True \<rparr>"
proof -
  have 1: "getStoredEdits storageA =
     Some \<lparr> se_edits = [(''block-1-0'', ''2025'')], se_timestamp = 1, se_pdfName = ''a.pdf'',
            se_isDirty = True \<rparr>"
    by (simp add: getStoredEdits_def storageA_def)
  show ?thesis
    by (rule merge_other_document_starts_fresh [OF 1]) simp_all
qed

section \<open>Properties of the reconciler\<close>

text \<open>
  C1, as the claim states it, fails in \<^verbatim>\<open>getResolvedText\<close>. The local record is dirty
  and holds 2025 for block-1-0, the backend-saved set holds 2023 for it: the text
  resolved for the block is 2023, the remote one.
\<close>

theorem getResolvedText_prefers_remote_counterexample:
  "getStoredEdits storageCurrent =
     Some \<lparr> se_edits = [(''block-1-0'', ''2025'')], se_timestamp = 1,
            se_pdfName = ''current_resume'', se_isDirty = True \<rparr> \<and>
   getResolvedText (Some remoteEdits) storageCurrent ''block-1-0'' ''2024'' = ''2023''"
  by (simp add: getResolvedText_def getStoredEdits_def storageCurrent_def remoteEdits_def)

text \<open>
  C1, amended. At extraction (\<^verbatim>\<open>extractPDFBlocks\<close>), when the stored record is for the
  file's name and is dirty, the blocks are merged with the local edits whatever the
  backend's answer is, and a block whose id has a non-empty local entry takes that entry.
  In the canvas (\<^verbatim>\<open>getResolvedText\<close>) an entry of the backend-saved set comes first: it is
  the resolved text whatever the local storage holds.
\<close>

theorem local_dirty_wins_at_extraction:
  assumes "getStoredEdits ls = Some se" and "se_pdfName se = fileName" and "se_isDirty se"
    and "map_of (se_edits se) (tb_id b) = Some l" and "l \<noteq> []"
    and "map_of remote blockId = Some r"
  shows "extractPDFBlocks fileName (Ok \<lparr> eb_success = True, eb_blocks = bs \<rparr>) ls editsResponse =
           Inr (map (applyEdit (se_edits se)) bs) \<and>
         tb_text (applyEdit (se_edits se) b) = l \<and>
         getResolvedText (Some remote) ls' blockId originalText = r"
  using assms by (simp add: extractPDFBlocks_def applyEdit_def getResolvedText_def)

theorem local_dirty_wins_at_extraction_witness:
  "extractPDFBlocks ''current_resume'' (Ok \<lparr> eb_success = True, eb_blocks = [blockOne] \<rparr>)
       storageCurrent (Ok (Some remoteEdits)) =
     Inr [blockOne \<lparr> tb_text := ''2025'' \<rparr>] \<and>
   getResolvedText (Some remoteEdits) emptyStorage ''block-1-0'' ''2024'' = ''2023''"
proof -
  have 1: "getStoredEdits storageCurrent =
     Some \<lparr> se_edits = [(''block-1-0'', ''2025'')], se_timestamp = 1,
            se_pdfName = ''current_resume'', se_isDirty = True \<rparr>"
    by (simp add: getStoredEdits_def storageCurrent_def)
  have 2: "map_of remoteEdits ''block-1-0'' = Some ''2023''"
    by (simp add: remoteEdits_def)
  have "extractPDFBlocks ''current_resume'' (Ok \<lparr> eb_success = True, eb_blocks = [blockOne] \<rparr>)
            storageCurrent (Ok (Some remoteEdits)) =
          Inr (map (applyEdit [(''block-1-0'', ''2025'')]) [blockOne]) \<and>
        tb_text (applyEdit [(''block-1-0'', ''2025'')] blockOne) = ''2025'' \<and>
        getResolvedText (Some remoteEdits) emptyStorage ''block-1-0'' ''2024'' = ''2023''"
    using local_dirty_wins_at_extraction [OF 1, of "''current_resume''" blockOne "''2025''"
        remoteEdits "''block-1-0''" "''2023''" "[blockOne]" "Ok (Some remoteEdits)"
        emptyStorage "''2024''"] 2
    by (simp add: blockOne_def)
  then show ?thesis
    by (simp add: applyEdit_def blockOne_def)
qed

section \<open>Properties of the overlay controller\<close>

lemma filter_key_update:
  "distinct (map fst q) \<Longrightarrow> filter (\<lambda>(k, u). k = key) (AList.update key v q) = [(key, v)]"
proof (induction q)
  case Nil
  then show ?case by simp
next
  case (Cons p q)
  obtain k u where p: "p = (k, u)" by (cases p)
  show ?case
  proof (cases "k = key")
    case True
    with Cons.prems p have "key \<notin> fst ` set q" by auto
    then have "filter (\<lambda>(k, u). k = key) q = []"
      by (force simp: filter_empty_conv)
    with True p show ?thesis by simp
  next
    case False
    with Cons p show ?thesis by simp
  qed
qed

lemma wfQueue_update:
  "wfQueue q \<Longrightarrow> bu_blockId u = key \<Longrightarrow> wfQueue (AList.update key u q)"
proof -
  have "list_all (\<lambda>(k, u). bu_blockId u = k) q \<Longrightarrow> bu_blockId u = key \<Longrightarrow>
        list_all (\<lambda>(k, u). bu_blockId u = k) (AList.update key u q)"
    by (induction q) auto
  then show "wfQueue q \<Longrightarrow> bu_blockId u = key \<Longrightarrow> wfQueue (AList.update key u q)"
    by (simp add: wfQueue_def distinct_update)
qed

lemma pendingSaves_queueBlockSave:
  "oldText \<noteq> newText \<Longrightarrow>
   pendingSaves (queueBlockSave blockId oldText newText section s) =
     AList.update blockId
       \<lparr> bu_blockId = blockId, bu_oldText = oldText, bu_newText = newText, bu_section = section \<rparr>
       (pendingSaves s)"
  by (simp add: queueBlockSave_def)

text \<open>
  C2, as the claim states it, fails. A save is in flight and one update is waiting:
  \<^verbatim>\<open>saveChanges\<close> returns true, hands nothing to the host and leaves the update in the
  queue.
\<close>

theorem saveChanges_in_flight_counterexample:
  "saveChanges (Some (\<lambda>u. True)) canvasSaving = (True, [], canvasSaving) \<and>
   pendingSaves canvasSaving = [(''block-1-0'', updateOne)]"
  by (simp add: saveChanges_def saveChangesStart_def canvasSaving_def)

text \<open>
  C2, amended. In every state in which no save is in flight, \<^verbatim>\<open>saveChanges\<close> returns true
  if and only if no pending save remains after it, the call with an empty queue included.
  In a state in which a save is in flight it returns true at once and changes nothing,
  whatever the queue holds.
\<close>

theorem saveChanges_true_iff_queue_empty:
  "(\<not> isSaving s \<longrightarrow>
      (fst (saveChanges onBlockSave s) \<longleftrightarrow> pendingSaves (snd (snd (saveChanges onBlockSave s))) = [])) \<and>
   (isSaving s \<longrightarrow> saveChanges onBlockSave s = (True, [], s))"
  by (simp add: saveChanges_def saveChangesStart_def saveChangesSettle_def Let_def
      split: option.split)

theorem saveChanges_true_iff_queue_empty_witness:
  "(fst (saveChanges (Some (\<lambda>u. False)) (canvasSaving \<lparr> isSaving := False \<rparr>)) \<longleftrightarrow>
      pendingSaves (snd (snd (saveChanges (Some (\<lambda>u. False)) (canvasSaving \<lparr> isSaving := False \<rparr>)))) = []) \<and>
   saveChanges (Some (\<lambda>u. False)) canvasSaving = (True, [], canvasSaving)"
  using saveChanges_true_iff_queue_empty [of "canvasSaving \<lparr> isSaving := False \<rparr>" "Some (\<lambda>u. False)"]
    saveChanges_true_iff_queue_empty [of canvasSaving "Some (\<lambda>u. False)"]
  by (simp add: canvasSaving_def)

text \<open>
  Two saves queued for the same block id leave exactly one entry for that id in the
  queue, the update of the second call, which replaces the first.
\<close>

lemma queueBlockSave_keeps_latest:
  assumes "wfQueue (pendingSaves s)" and "old1 \<noteq> new1" and "old2 \<noteq> new2"
  shows "filter (\<lambda>(k, u). k = blockId)
           (pendingSaves (queueBlockSave blockId old2 new2 sec2 (queueBlockSave blockId old1 new1 sec1 s))) =
           [(blockId, \<lparr> bu_blockId = blockId, bu_oldText = old2, bu_newText = new2, bu_section = sec2 \<rparr>)]"
proof -
  let ?u1 = "\<lparr> bu_blockId = blockId, bu_oldText = old1, bu_newText = new1, bu_section = sec1 \<rparr>"
  let ?u2 = "\<lparr> bu_blockId = blockId, bu_oldText = old2, bu_newText = new2, bu_section = sec2 \<rparr>"
  let ?s2 = "queueBlockSave blockId old2 new2 sec2 (queueBlockSave blockId old1 new1 sec1 s)"
  let ?q1 = "AList.update blockId ?u1 (pendingSaves s)"
  have q2: "pendingSaves ?s2 = AList.update blockId ?u2 ?q1"
    using assms(2,3) by (simp add: pendingSaves_queueBlockSave)
  have wf1: "wfQueue ?q1"
    using assms(1) by (simp add: wfQueue_update)
  show ?thesis
    unfolding q2 using wf1 by (intro filter_key_update) (simp add: wfQueue_def)
qed

text \<open>
  Whatever has been queued while a flush awaited the host, the end of a successful flush
  empties the queue; and a flush on a state whose queue is not empty returns true if and
  only if none remains, also when saves were queued in between.
\<close>

lemma saveChangesSettle_clears_queue:
  "pendingSaves (snd (saveChangesSettle True s)) = [] \<and> \<not> isSaving (snd (saveChangesSettle True s))"
  by (simp add: saveChangesSettle_def)

lemma saveChangesSettle_true_iff_queue_empty:
  "pendingSaves s \<noteq> [] \<Longrightarrow>
   (fst (saveChangesSettle allSaved s) \<longleftrightarrow> pendingSaves (snd (saveChangesSettle allSaved s)) = [])"
  by (simp add: saveChangesSettle_def)

text \<open>
  C3. The claim fails on the code, by the way \<^verbatim>\<open>saveChanges\<close> ends. A flush is started
  while an update of block-1-1 waits; it hands that update to the host and awaits. In the
  meantime two saves are queued for block-1-0, and the queue holds one entry for it, with
  the latest text 2026, beside the entry in flight. The host's promise is fulfilled:
  the flush returns true and clears the whole queue, the entry of block-1-0 included,
  which was never handed to the host. No save is in flight any more, and the flush that
  follows returns true and hands nothing to the host: no request is ever issued for
  block-1-0, where the claim asks for exactly one with the latest text.
\<close>

theorem saves_queued_during_flight_are_dropped:
  "saveChangesStart (Some (\<lambda>u. True)) canvasQueued =
     (Awaiting [updateB] True, canvasQueued \<lparr> isSaving := True \<rparr>) \<and>
   pendingSaves canvasQueuedInFlight = [(''block-1-1'', updateB), (''block-1-0'', latestUpdate)] \<and>
   saveChangesSettle True canvasQueuedInFlight = (True, canvasIdle) \<and>
   pendingSaves canvasIdle = [] \<and>
   isSaving canvasIdle = False \<and>
   saveChanges (Some (\<lambda>u. True)) canvasIdle = (True, [], canvasIdle)"
proof -
  have start: "saveChangesStart (Some (\<lambda>u. True)) canvasQueued =
                 (Awaiting [updateB] True, canvasQueued \<lparr> isSaving := True \<rparr>)"
    by (simp add: saveChangesStart_def canvasQueued_def canvasIdle_def Let_def)
  have flight: "canvasQueuedInFlight =
                  canvasIdle \<lparr> pendingSaves := [(''block-1-1'', updateB), (''block-1-0'', latestUpdate)],
                               pendingChanges := [''block-1-0'', ''block-1-1''],
                               hasPendingChanges := True, isSaving := True \<rparr>"
    unfolding canvasQueuedInFlight_def start snd_conv
    by (simp add: queueBlockSave_def canvasQueued_def canvasIdle_def latestUpdate_def)
  have settle: "saveChangesSettle True canvasQueuedInFlight = (True, canvasIdle)"
    by (simp add: flight saveChangesSettle_def canvasIdle_def)
  have after: "saveChanges (Some (\<lambda>u. True)) canvasIdle = (True, [], canvasIdle)"
    by (simp add: saveChanges_def saveChangesStart_def canvasIdle_def)
  show ?thesis
    using start settle after by (simp add: flight) (simp add: canvasIdle_def)
qed

text \<open>While the canvas is locked a key press changes nothing, whatever the key.\<close>

lemma handleKeyDown_locked:
  "isLocked s \<Longrightarrow> handleKeyDown now key shiftKey target s = s"
  by (simp add: handleKeyDown_def)

text \<open>
  C6, as the claim states it, fails while the canvas is locked. The span has the focus,
  its snapshot is Engineer and its live text Enginer; the canvas is locked. The Escape key
  changes nothing: the live text stays Enginer and the span keeps the focus.
\<close>

theorem escape_while_locked_counterexample:
  "handleKeyDown 5 ''Escape'' False (Some ''span0'') (canvasEditing \<lparr> isLocked := True \<rparr>) =
     canvasEditing \<lparr> isLocked := True \<rparr> \<and>
   textContent (canvasEditing \<lparr> isLocked := True \<rparr>) ''span0'' = ''Enginer'' \<and>
   activeSpan (canvasEditing \<lparr> isLocked := True \<rparr>) = Some ''span0'' \<and>
   map_of (originalTextRef (canvasEditing \<lparr> isLocked := True \<rparr>)) ''block-1-0'' = Some ''Engineer''"
  by (simp add: handleKeyDown_def canvasEditing_def canvasIdle_def textContent_def)

text \<open>
  C6, amended. While the canvas is not locked: for every span that has the focus and whose
  block has a rollback snapshot that is not the empty string (or whose block's text is
  empty as well), the Escape key sets the live text to the snapshot and takes the focus
  away, and nothing else changes: the live text equals the snapshot, the snapshot is
  kept, and the queue of pending saves, the store and the blocks are as before.
\<close>

theorem escape_reverts_to_snapshot:
  assumes "\<not> isLocked s" and "activeSpan s = Some spanEl"
    and "map_of (blockMap s) spanEl = Some block"
    and "map_of (originalTextRef s) (rb_id block) = Some snapshot"
    and "snapshot \<noteq> [] \<or> rb_text block = []"
  shows "handleKeyDown now ''Escape'' shiftKey (Some spanEl) s =
           s \<lparr> activeSpan := None, spanText := AList.update spanEl snapshot (spanText s) \<rparr> \<and>
         textContent (handleKeyDown now ''Escape'' shiftKey (Some spanEl) s) spanEl = snapshot \<and>
         pendingSaves (handleKeyDown now ''Escape'' shiftKey (Some spanEl) s) = pendingSaves s"
proof -
  have "handleKeyDown now ''Escape'' shiftKey (Some spanEl) s =
          s \<lparr> activeSpan := None, spanText := AList.update spanEl snapshot (spanText s) \<rparr>"
    using assms
    by (auto simp: handleKeyDown_def getSpanAndBlock_def blur_def handleBlur_def textContent_def
        update_conv' Let_def)
  then show ?thesis
    by (simp add: textContent_def update_conv')
qed

theorem escape_reverts_to_snapshot_witness:
  "handleInput ''span0'' ''Enginer'' (handleFocus 3 ''span0'' canvasIdle) = canvasEditing \<and>
   handleKeyDown 5 ''Escape'' False (Some ''span0'') canvasEditing =
     canvasIdle \<lparr> pendingChanges := [''block-1-0''] \<rparr> \<and>
   textContent (handleKeyDown 5 ''Escape'' False (Some ''span0'') canvasEditing) ''span0'' = ''Engineer'' \<and>
   pendingSaves (handleKeyDown 5 ''Escape'' False (Some ''span0'') canvasEditing) = []"
proof -
  have 1: "\<not> isLocked canvasEditing" and 2: "activeSpan canvasEditing = Some ''span0''"
    and 3: "map_of (blockMap canvasEditing) ''span0'' = Some engineerBlock"
    and 4: "map_of (originalTextRef canvasEditing) (rb_id engineerBlock) = Some ''Engineer''"
    and 5: "''Engineer'' \<noteq> [] \<or> rb_text engineerBlock = []"
    by (simp_all add: canvasEditing_def canvasIdle_def engineerBlock_def)
  have "handleFocus 3 ''span0'' canvasIdle = canvasIdle \<lparr> activeSpan := Some ''span0'' \<rparr>"
    by (simp add: handleFocus_def getSpanAndBlock_def textContent_def canvasIdle_def
        engineerBlock_def Let_def)
  moreover have "handleInput ''span0'' ''Enginer'' (canvasIdle \<lparr> activeSpan := Some ''span0'' \<rparr>) =
                   canvasEditing"
    by (simp add: handleInput_def textContent_def canvasIdle_def engineerBlock_def
        canvasEditing_def Let_def)
  ultimately have reached:
    "handleInput ''span0'' ''Enginer'' (handleFocus 3 ''span0'' canvasIdle) = canvasEditing"
    by simp
  have "handleKeyDown 5 ''Escape'' False (Some ''span0'') canvasEditing =
          canvasEditing \<lparr> activeSpan := None,
                          spanText := AList.update ''span0'' ''Engineer'' (spanText canvasEditing) \<rparr>"
    using escape_reverts_to_snapshot [OF 1 2 3 4 5, of 5 False] by blast
  also have "\<dots> = canvasIdle \<lparr> pendingChanges := [''block-1-0''] \<rparr>"
    by (simp add: canvasEditing_def canvasIdle_def)
  finally have eq: "handleKeyDown 5 ''Escape'' False (Some ''span0'') canvasEditing =
                      canvasIdle \<lparr> pendingChanges := [''block-1-0''] \<rparr>" .
  have live: "textContent (canvasIdle \<lparr> pendingChanges := [''block-1-0''] \<rparr>) ''span0'' = ''Engineer''"
    and pend: "pendingSaves (canvasIdle \<lparr> pendingChanges := [''block-1-0''] \<rparr>) = []"
    by (simp_all add: canvasIdle_def textContent_def)
  from reached eq live pend show ?thesis
    by simp
qed

section \<open>Properties of the exporter\<close>

lemma exportBlocks_clean:
  "\<forall>(k, state) \<in> set blockStates. \<not> es_isDirty state \<Longrightarrow>
   exportBlocks widthOfTextAtSize blockStates blocks pages = Inr pages"
proof (induction blocks)
  case Nil
  then show ?case by simp
next
  case (Cons block rest)
  show ?case
  proof (cases "map_of blockStates (tb_id block)")
    case None
    with Cons show ?thesis by simp
  next
    case (Some state)
    then have "(tb_id block, state) \<in> set blockStates"
      by (rule map_of_SomeD)
    with Cons.prems have "\<not> es_isDirty state" by auto
    with Some Cons show ?thesis by simp
  qed
qed

lemma exportBlocksBasic_clean:
  "\<forall>(k, state) \<in> set blockStates. \<not> es_isDirty state \<Longrightarrow>
   exportBlocksBasic widthOfTextAtSize blockStates blocks pages = Inr pages"
proof (induction blocks)
  case Nil
  then show ?case by simp
next
  case (Cons block rest)
  show ?case
  proof (cases "map_of blockStates (tb_id block)")
    case None
    with Cons show ?thesis by simp
  next
    case (Some state)
    then have "(tb_id block, state) \<in> set blockStates"
      by (rule map_of_SomeD)
    with Cons.prems have "\<not> es_isDirty state" by auto
    with Some Cons show ?thesis by simp
  qed
qed

text \<open>
  C7. For every document and every map of block states in which no state is dirty, both
  exporters return the document with its pages as they were loaded: no rectangle is
  painted and no text is drawn on any page. The only change is in the document's list of
  embedded fonts. (When the bytes cannot be read, the export fails and nothing is
  produced.)
\<close>

theorem export_without_dirty_blocks:
  assumes "\<forall>(k, state) \<in> set blockStates. \<not> es_isDirty state"
  shows "exportToPDF widthOfTextAtSize (Some pdfDoc) blocks blockStates =
           Inr (pdfDoc \<lparr> pd_fonts := pd_fonts pdfDoc @ embedAllFonts \<rparr>) \<and>
         exportToPDFBasic widthOfTextAtSize (Some pdfDoc) blocks blockStates =
           Inr (pdfDoc \<lparr> pd_fonts := pd_fonts pdfDoc @ [Helvetica, HelveticaBold] \<rparr>) \<and>
         pd_pages (pdfDoc \<lparr> pd_fonts := pd_fonts pdfDoc @ embedAllFonts \<rparr>) = pd_pages pdfDoc \<and>
         pd_pages (pdfDoc \<lparr> pd_fonts := pd_fonts pdfDoc @ [Helvetica, HelveticaBold] \<rparr>) = pd_pages pdfDoc \<and>
         exportToPDF widthOfTextAtSize None blocks blockStates = Inl LoadFailed \<and>
         exportToPDFBasic widthOfTextAtSize None blocks blockStates = Inl LoadFailed"
  using assms
  by (simp add: exportToPDF_def exportToPDFBasic_def exportBlocks_clean exportBlocksBasic_clean)

theorem export_without_dirty_blocks_witness:
  "exportToPDF (\<lambda>font t size. None) (Some onePageDoc) [blockOne] [(''block-1-0'', cleanState)] =
     Inr (onePageDoc \<lparr> pd_fonts := embedAllFonts \<rparr>) \<and>
   exportToPDFBasic (\<lambda>font t size. None) (Some onePageDoc) [blockOne] [(''block-1-0'', cleanState)] =
     Inr (onePageDoc \<lparr> pd_fonts := [Helvetica, HelveticaBold] \<rparr>)"
proof -
  have 1: "\<forall>(k, state) \<in> set [(''block-1-0'', cleanState)]. \<not> es_isDirty state"
    by (simp add: cleanState_def)
  show ?thesis
    using export_without_dirty_blocks [OF 1, of "\<lambda>font t size. None" onePageDoc "[blockOne]"]
    by (simp add: onePageDoc_def)
qed

section \<open>Properties of the block extractor\<close>

lemma extractItems_sound:
  "b \<in> set (extractItems inp k sec items) \<Longrightarrow>
   \<exists>j sec' t. j < length items \<and> items ! j = TextRun t \<and> trim (ti_str t) \<noteq> [] \<and>
              b = makeBlock inp (k + j) sec' t"
proof (induction inp k sec items rule: extractItems.induct)
  case (1 inp index sectionGuess)
  then show ?case by simp
next
  case (2 inp index sectionGuess items)
  then obtain j sec' t where "j < length items" "items ! j = TextRun t" "trim (ti_str t) \<noteq> []"
    "b = makeBlock inp (index + 1 + j) sec' t"
    by auto
  then have "Suc j < length (MarkedContent # items) \<and> (MarkedContent # items) ! Suc j = TextRun t \<and>
             trim (ti_str t) \<noteq> [] \<and> b = makeBlock inp (index + Suc j) sec' t"
    by simp
  then show ?case by blast
next
  case (3 inp index sectionGuess textItem items)
  let ?sec = "nextSection sectionGuess (toLowerCase (ti_str textItem))"
  show ?case
  proof (cases "trim (ti_str textItem) = []")
    case True
    with 3 obtain j sec' t where "j < length items" "items ! j = TextRun t" "trim (ti_str t) \<noteq> []"
      "b = makeBlock inp (index + 1 + j) sec' t"
      by auto
    then have "Suc j < length (TextRun textItem # items) \<and>
               (TextRun textItem # items) ! Suc j = TextRun t \<and>
               trim (ti_str t) \<noteq> [] \<and> b = makeBlock inp (index + Suc j) sec' t"
      by simp
    then show ?thesis by blast
  next
    case False
    with "3.prems" consider "b = makeBlock inp index ?sec textItem"
      | "b \<in> set (extractItems inp (index + 1) ?sec items)"
      by (auto simp: Let_def)
    then show ?thesis
    proof cases
      case 1
      with False have "0 < length (TextRun textItem # items) \<and>
                       (TextRun textItem # items) ! 0 = TextRun textItem \<and>
                       trim (ti_str textItem) \<noteq> [] \<and> b = makeBlock inp (index + 0) ?sec textItem"
        by simp
      then show ?thesis by blast
    next
      case 2
      with False "3.IH"(2) obtain j sec' t where "j < length items" "items ! j = TextRun t"
        "trim (ti_str t) \<noteq> []" "b = makeBlock inp (index + 1 + j) sec' t"
        by (auto simp: Let_def)
      then have "Suc j < length (TextRun textItem # items) \<and>
                 (TextRun textItem # items) ! Suc j = TextRun t \<and>
                 trim (ti_str t) \<noteq> [] \<and> b = makeBlock inp (index + Suc j) sec' t"
        by simp
      then show ?thesis by blast
    qed
  qed
qed

lemma extractItems_complete:
  "j < length items \<Longrightarrow> items ! j = TextRun t \<Longrightarrow> trim (ti_str t) \<noteq> [] \<Longrightarrow>
   \<exists>sec'. makeBlock inp (k + j) sec' t \<in> set (extractItems inp k sec items)"
proof (induction inp k sec items arbitrary: j rule: extractItems.induct)
  case (1 inp index sectionGuess)
  then show ?case by simp
next
  case (2 inp index sectionGuess items)
  then obtain j' where j: "j = Suc j'" by (cases j) auto
  with 2 show ?case by auto
next
  case (3 inp index sectionGuess textItem items)
  show ?case
  proof (cases j)
    case 0
    with "3.prems" show ?thesis by (auto simp: Let_def)
  next
    case (Suc j')
    show ?thesis
    proof (cases "trim (ti_str textItem) = []")
      case True
      with Suc "3.prems" "3.IH"(1) [of j'] show ?thesis by auto
    next
      case False
      with Suc "3.prems" "3.IH"(2) [OF False refl, of j'] show ?thesis by (auto simp: Let_def)
    qed
  qed
qed

lemma makeBlock_geometry:
  "rb_spanIndex (makeBlock inp i sec t) = i \<and>
   rb_fontSize (makeBlock inp i sec t) =
     sqrt (m0 (transform (ri_viewportTransform inp) (ti_transform t)) *
           m0 (transform (ri_viewportTransform inp) (ti_transform t)) +
           m1 (transform (ri_viewportTransform inp) (ti_transform t)) *
           m1 (transform (ri_viewportTransform inp) (ti_transform t))) \<and>
   rb_y (makeBlock inp i sec t) =
     m5 (transform (ri_viewportTransform inp) (ti_transform t)) - rb_fontSize (makeBlock inp i sec t)"
  by (simp add: makeBlock_def Let_def)

text \<open>
  C8. For every item of the text content, at position \<open>i\<close>: an item that is not a text
  run, and a run whose trimmed text is empty, produce no block (no extracted block has
  position \<open>i\<close>); every other run produces a block at position \<open>i\<close>, and every block at
  that position has as font size the square root of \<open>a\<^sup>2 + b\<^sup>2\<close>, \<open>a\<close> and \<open>b\<close>
  being the first two entries of the viewport transform composed with the run's
  transform, and as \<open>y\<close> the last entry of that matrix minus the font size.
\<close>

theorem extracted_block_geometry:
  assumes "i < length items"
  shows "case items ! i of
           MarkedContent \<Rightarrow> \<not> (\<exists>b \<in> set (extractedBlocks inp items). rb_spanIndex b = i)
         | TextRun t \<Rightarrow>
             if trim (ti_str t) = []
             then \<not> (\<exists>b \<in> set (extractedBlocks inp items). rb_spanIndex b = i)
             else (\<exists>b \<in> set (extractedBlocks inp items). rb_spanIndex b = i) \<and>
                  (\<forall>b \<in> set (extractedBlocks inp items). rb_spanIndex b = i \<longrightarrow>
                     rb_fontSize b =
                       sqrt (m0 (transform (ri_viewportTransform inp) (ti_transform t)) *
                             m0 (transform (ri_viewportTransform inp) (ti_transform t)) +
                             m1 (transform (ri_viewportTransform inp) (ti_transform t)) *
                             m1 (transform (ri_viewportTransform inp) (ti_transform t))) \<and>
                     rb_y b = m5 (transform (ri_viewportTransform inp) (ti_transform t)) - rb_fontSize b)"
proof -
  have sound: "\<And>b. b \<in> set (extractedBlocks inp items) \<Longrightarrow> rb_spanIndex b = i \<Longrightarrow>
      \<exists>sec' t. items ! i = TextRun t \<and> trim (ti_str t) \<noteq> [] \<and> b = makeBlock inp i sec' t"
  proof -
    fix b
    assume "b \<in> set (extractedBlocks inp items)" and i: "rb_spanIndex b = i"
    then obtain j sec' t where "j < length items" and jt: "items ! j = TextRun t"
      "trim (ti_str t) \<noteq> []" and b: "b = makeBlock inp (0 + j) sec' t"
      unfolding extractedBlocks_def by (blast dest: extractItems_sound)
    from b i have "j = i" by (simp add: makeBlock_geometry)
    with jt b show "\<exists>sec' t. items ! i = TextRun t \<and> trim (ti_str t) \<noteq> [] \<and> b = makeBlock inp i sec' t"
      by auto
  qed
  show ?thesis
  proof (cases "items ! i")
    case MarkedContent
    with sound show ?thesis by auto
  next
    case (TextRun t)
    show ?thesis
    proof (cases "trim (ti_str t) = []")
      case True
      with TextRun sound show ?thesis by auto
    next
      case False
      from extractItems_complete [OF assms TextRun False, of inp 0 "''content''"]
      obtain sec' where "makeBlock inp i sec' t \<in> set (extractedBlocks inp items)"
        by (auto simp: extractedBlocks_def)
      then have ex: "\<exists>b \<in> set (extractedBlocks inp items). rb_spanIndex b = i"
        using makeBlock_geometry [of inp i sec' t] by blast
      have "\<And>b. b \<in> set (extractedBlocks inp items) \<Longrightarrow> rb_spanIndex b = i \<Longrightarrow>
              rb_fontSize b =
                sqrt (m0 (transform (ri_viewportTransform inp) (ti_transform t)) *
                      m0 (transform (ri_viewportTransform inp) (ti_transform t)) +
                      m1 (transform (ri_viewportTransform inp) (ti_transform t)) *
                      m1 (transform (ri_viewportTransform inp) (ti_transform t))) \<and>
              rb_y b = m5 (transform (ri_viewportTransform inp) (ti_transform t)) - rb_fontSize b"
      proof -
        fix b
        assume "b \<in> set (extractedBlocks inp items)" "rb_spanIndex b = i"
        from sound [OF this] TextRun obtain sec' where "b = makeBlock inp i sec' t"
          by auto
        then show "rb_fontSize b =
                sqrt (m0 (transform (ri_viewportTransform inp) (ti_transform t)) *
                      m0 (transform (ri_viewportTransform inp) (ti_transform t)) +
                      m1 (transform (ri_viewportTransform inp) (ti_transform t)) *
                      m1 (transform (ri_viewportTransform inp) (ti_transform t))) \<and>
              rb_y b = m5 (transform (ri_viewportTransform inp) (ti_transform t)) - rb_fontSize b"
          using makeBlock_geometry [of inp i sec' t] by simp
      qed
      with ex TextRun False show ?thesis by simp
    qed
  qed
qed

theorem extracted_block_geometry_witness:
  "\<not> (\<exists>b \<in> set (extractedBlocks viewInput [TextRun blankRun, TextRun yearRun]). rb_spanIndex b = 0) \<and>
   (\<exists>b \<in> set (extractedBlocks viewInput [TextRun blankRun, TextRun yearRun]).
      rb_spanIndex b = 1 \<and> rb_fontSize b = 12 \<and> rb_y b = 10)"
proof -
  have 0: "(0::nat) < length [TextRun blankRun, TextRun yearRun]"
    and 1: "(1::nat) < length [TextRun blankRun, TextRun yearRun]"
    by simp_all
  have blank: "trim (ti_str blankRun) = []"
    by (simp add: blankRun_def trim_def isWhiteSpace_def charCode_def)
  have year: "trim (ti_str yearRun) \<noteq> []"
    by (simp add: yearRun_def trim_def isWhiteSpace_def charCode_def)
  have tx: "transform (ri_viewportTransform viewInput) (ti_transform yearRun) =
              \<lparr> m0 = 12, m1 = 0, m2 = 0, m3 = -12, m4 = 10, m5 = 22 \<rparr>"
    by (simp add: transform_def viewInput_def yearRun_def)
  have "\<not> (\<exists>b \<in> set (extractedBlocks viewInput [TextRun blankRun, TextRun yearRun]). rb_spanIndex b = 0)"
    using extracted_block_geometry [OF 0, of viewInput] blank by simp
  moreover have "(\<exists>b \<in> set (extractedBlocks viewInput [TextRun blankRun, TextRun yearRun]). rb_spanIndex b = 1) \<and>
     (\<forall>b \<in> set (extractedBlocks viewInput [TextRun blankRun, TextRun yearRun]).
        rb_spanIndex b = 1 \<longrightarrow> rb_fontSize b = 12 \<and> rb_y b = 10)"
    using extracted_block_geometry [OF 1, of viewInput] year by (simp add: tx)
  ultimately show ?thesis by blast
qed

section \<open>Properties of the remote saves\<close>

lemma updateResumeBlocks_empty:
  "updateResumeBlocks network now [] retry timeout st = (Resolved noChanges, st)"
  by (simp add: updateResumeBlocks.simps)

lemma updateResumeBlocks_pending:
  "blocks \<noteq> [] \<Longrightarrow> getRequestKey blocks \<in> set (pendingRequests st) \<Longrightarrow>
   updateResumeBlocks network now blocks retry timeout st = (Joins (getRequestKey blocks), st)"
  by (simp add: updateResumeBlocks.simps)

lemma updateResumeBlocks_logs:
  "\<exists>n m. n \<le> 1 \<and> m \<le> n \<and> m \<le> retry \<and>
     requests (snd (updateResumeBlocks network now blocks retry timeout st)) =
       requests st @ replicate n blocks \<and>
     backoffs (snd (updateResumeBlocks network now blocks retry timeout st)) =
       backoffs st @ replicate m 1000 \<and>
     abortTimers (snd (updateResumeBlocks network now blocks retry timeout st)) =
       abortTimers st @ replicate n timeout"
proof (cases "blocks = [] \<or> getRequestKey blocks \<in> set (pendingRequests st)")
  case True
  then have "snd (updateResumeBlocks network now blocks retry timeout st) = st"
    by (cases "blocks = []") (auto simp: updateResumeBlocks_empty updateResumeBlocks_pending)
  then have "(0::nat) \<le> 1 \<and> (0::nat) \<le> 0 \<and> (0::nat) \<le> retry \<and>
     requests (snd (updateResumeBlocks network now blocks retry timeout st)) =
       requests st @ replicate 0 blocks \<and>
     backoffs (snd (updateResumeBlocks network now blocks retry timeout st)) =
       backoffs st @ replicate 0 1000 \<and>
     abortTimers (snd (updateResumeBlocks network now blocks retry timeout st)) =
       abortTimers st @ replicate 0 timeout"
    by simp
  then show ?thesis by blast
next
  case False
  let ?st1 = "st \<lparr> abortTimers := abortTimers st @ [timeout], requests := requests st @ [blocks],
                   pendingRequests := getRequestKey blocks # pendingRequests st \<rparr>"
  have rec: "updateResumeBlocks network now blocks (retry - 1) timeout (?st1 \<lparr> backoffs := backoffs ?st1 @ [1000] \<rparr>) =
          (Joins (getRequestKey blocks), ?st1 \<lparr> backoffs := backoffs ?st1 @ [1000] \<rparr>)"
    using False by (intro updateResumeBlocks_pending) simp_all
  show ?thesis
  proof (cases "network (length (requests st)) = FetchTypeError \<and> retry > 0")
    case True
    with False rec have "(1::nat) \<le> 1 \<and> (1::nat) \<le> 1 \<and> 1 \<le> retry \<and>
       requests (snd (updateResumeBlocks network now blocks retry timeout st)) =
         requests st @ replicate 1 blocks \<and>
       backoffs (snd (updateResumeBlocks network now blocks retry timeout st)) =
         backoffs st @ replicate 1 1000 \<and>
       abortTimers (snd (updateResumeBlocks network now blocks retry timeout st)) =
         abortTimers st @ replicate 1 timeout"
      by (subst (1 2 3) updateResumeBlocks.simps) (simp add: Let_def)
    then show ?thesis by blast
  next
    case neither: False
    with False have "(1::nat) \<le> 1 \<and> (0::nat) \<le> 1 \<and> 0 \<le> retry \<and>
       requests (snd (updateResumeBlocks network now blocks retry timeout st)) =
         requests st @ replicate 1 blocks \<and>
       backoffs (snd (updateResumeBlocks network now blocks retry timeout st)) =
         backoffs st @ replicate 0 1000 \<and>
       abortTimers (snd (updateResumeBlocks network now blocks retry timeout st)) =
         abortTimers st @ replicate 1 timeout"
      by (subst (1 2 3) updateResumeBlocks.simps) (auto simp: Let_def split: SaveFetch.splits)
    then show ?thesis by blast
  qed
qed

lemma updateResumeBlocks_abort:
  assumes "blocks \<noteq> []" and "getRequestKey blocks \<notin> set (pendingRequests st)"
    and "network (length (requests st)) = FetchAbort"
  shows "updateResumeBlocks network now blocks retry timeout st =
           (Rejects timedOut,
            st \<lparr> abortTimers := abortTimers st @ [timeout], requests := requests st @ [blocks],
                 pendingRequests := removeAll (getRequestKey blocks) (pendingRequests st) \<rparr>)"
  using assms by (subst updateResumeBlocks.simps) (simp add: Let_def timedOut_def)

text \<open>
  A network failure with a retry left: one request has been sent, the retry call returns
  the promise of the request in flight, which is the caller's own, and the call is never
  settled.
\<close>

lemma network_failure_with_retry_left:
  assumes "blocks \<noteq> []" and "getRequestKey blocks \<notin> set (pendingRequests st)"
    and "network (length (requests st)) = FetchTypeError" and "retry > 0"
  shows "updateResumeBlocks network now blocks retry timeout st =
           (NeverSettles,
            st \<lparr> abortTimers := abortTimers st @ [timeout], requests := requests st @ [blocks],
                 pendingRequests := removeAll (getRequestKey blocks) (pendingRequests st),
                 backoffs := backoffs st @ [1000] \<rparr>)"
proof -
  let ?st1 = "st \<lparr> abortTimers := abortTimers st @ [timeout], requests := requests st @ [blocks],
                   pendingRequests := getRequestKey blocks # pendingRequests st \<rparr>"
  have "updateResumeBlocks network now blocks (retry - 1) timeout (?st1 \<lparr> backoffs := backoffs ?st1 @ [1000] \<rparr>) =
          (Joins (getRequestKey blocks), ?st1 \<lparr> backoffs := backoffs ?st1 @ [1000] \<rparr>)"
    using assms(1) by (intro updateResumeBlocks_pending) simp_all
  with assms show ?thesis
    by (subst updateResumeBlocks.simps) (simp add: Let_def)
qed

text \<open>
  C4, as the claim states it, fails for the timeout. The first request times out and a
  second one would succeed; the call, with the default options, sends one request only
  and is rejected with the timeout error: the timeout is not retried.
\<close>

theorem timeout_retried_counterexample:
  "updateResumeBlocks timeoutThenOk 7 [updateOne] 1 10000 initialApi =
     (Rejects timedOut,
      initialApi \<lparr> abortTimers := [10000], requests := [[updateOne]] \<rparr>) \<and>
   timeoutThenOk 0 = FetchAbort \<and>
   timeoutThenOk 1 = FetchOk \<lparr> ur_success = True, ur_message = ''saved'' \<rparr>"
  by (subst updateResumeBlocks.simps)
    (simp add: initialApi_def timeoutThenOk_def timedOut_def Let_def)

text \<open>
  C4, amended. A call with the default options sends its request at most twice, that is
  with at most one automatic retry, and what it waits before a retry is 1000 ms; the
  abort timer of each request is set to 10000 ms. When the request of a call times out
  (the fetch is aborted), the call is rejected at once with the error
  \<^verbatim>\<open>NETWORK_ERROR\<close>, request timed out: no second request is sent and nothing is waited.
\<close>

theorem timeout_surfaced_without_retry:
  "(blocks \<noteq> [] \<and> getRequestKey blocks \<notin> set (pendingRequests st) \<and>
    network (length (requests st)) = FetchAbort \<longrightarrow>
      fst (updateResumeBlocks network now blocks 1 10000 st) = Rejects timedOut \<and>
      requests (snd (updateResumeBlocks network now blocks 1 10000 st)) = requests st @ [blocks] \<and>
      backoffs (snd (updateResumeBlocks network now blocks 1 10000 st)) = backoffs st) \<and>
   (\<exists>n m. n \<le> 2 \<and> m \<le> 1 \<and>
      requests (snd (updateResumeBlocks network now blocks 1 10000 st)) = requests st @ replicate n blocks \<and>
      backoffs (snd (updateResumeBlocks network now blocks 1 10000 st)) = backoffs st @ replicate m 1000 \<and>
      abortTimers (snd (updateResumeBlocks network now blocks 1 10000 st)) =
        abortTimers st @ replicate n 10000)"
proof -
  obtain n m where "n \<le> 1" "m \<le> n" "m \<le> 1"
    "requests (snd (updateResumeBlocks network now blocks 1 10000 st)) = requests st @ replicate n blocks"
    "backoffs (snd (updateResumeBlocks network now blocks 1 10000 st)) = backoffs st @ replicate m 1000"
    "abortTimers (snd (updateResumeBlocks network now blocks 1 10000 st)) = abortTimers st @ replicate n 10000"
    using updateResumeBlocks_logs [of 1 network now blocks 10000 st] by blast
  then have "n \<le> 2 \<and> m \<le> 1 \<and>
      requests (snd (updateResumeBlocks network now blocks 1 10000 st)) = requests st @ replicate n blocks \<and>
      backoffs (snd (updateResumeBlocks network now blocks 1 10000 st)) = backoffs st @ replicate m 1000 \<and>
      abortTimers (snd (updateResumeBlocks network now blocks 1 10000 st)) =
        abortTimers st @ replicate n 10000"
    by simp
  then show ?thesis
    by (auto simp: updateResumeBlocks_abort simp del: replicate.simps)
qed

theorem timeout_surfaced_without_retry_witness:
  "fst (updateResumeBlocks timeoutThenOk 7 [updateOne] 1 10000 initialApi) = Rejects timedOut \<and>
   requests (snd (updateResumeBlocks timeoutThenOk 7 [updateOne] 1 10000 initialApi)) = [[updateOne]] \<and>
   backoffs (snd (updateResumeBlocks timeoutThenOk 7 [updateOne] 1 10000 initialApi)) = []"
proof -
  have "[updateOne] \<noteq> [] \<and> getRequestKey [updateOne] \<notin> set (pendingRequests initialApi) \<and>
        timeoutThenOk (length (requests initialApi)) = FetchAbort"
    by (simp add: initialApi_def timeoutThenOk_def)
  then show ?thesis
    using timeout_surfaced_without_retry [of "[updateOne]" initialApi timeoutThenOk 7]
    by (simp add: initialApi_def)
qed

text \<open>
  C10. Every update that \<^verbatim>\<open>batchUpdateBlocks\<close> sends in a request has a new text that
  differs from its old text and is not empty or blank. When every update of the list is
  filtered out, the call is fulfilled with the message No changes to save and the state is
  as before: no request is sent. So is a call of \<^verbatim>\<open>updateResumeBlocks\<close> with the empty
  list.
\<close>

theorem batch_sends_only_real_changes:
  "(\<exists>sent. requests (snd (batchUpdateBlocks network now blocks st)) = requests st @ sent \<and>
           (\<forall>payload \<in> set sent. \<forall>u \<in> set payload.
              bu_oldText u \<noteq> bu_newText u \<and> trim (bu_newText u) \<noteq> [])) \<and>
   ((\<forall>u \<in> set blocks. bu_oldText u = bu_newText u \<or> trim (bu_newText u) = []) \<longrightarrow>
      batchUpdateBlocks network now blocks st = (Resolved noChanges, st)) \<and>
   updateResumeBlocks network now [] retry timeout st = (Resolved noChanges, st)"
proof -
  let ?valid = "filter (\<lambda>block. bu_oldText block \<noteq> bu_newText block \<and> trim (bu_newText block) \<noteq> []) blocks"
  have 1: "\<exists>sent. requests (snd (batchUpdateBlocks network now blocks st)) = requests st @ sent \<and>
           (\<forall>payload \<in> set sent. \<forall>u \<in> set payload.
              bu_oldText u \<noteq> bu_newText u \<and> trim (bu_newText u) \<noteq> [])"
  proof (cases "?valid = []")
    case True
    then have "requests (snd (batchUpdateBlocks network now blocks st)) = requests st @ []"
      by (simp add: batchUpdateBlocks_def)
    then show ?thesis by fastforce
  next
    case False
    obtain n where "requests (snd (updateResumeBlocks network now ?valid 1 10000 st)) =
                      requests st @ replicate n ?valid"
      using updateResumeBlocks_logs [of 1 network now ?valid 10000 st] by blast
    with False have "requests (snd (batchUpdateBlocks network now blocks st)) =
                       requests st @ replicate n ?valid \<and>
                     (\<forall>payload \<in> set (replicate n ?valid). \<forall>u \<in> set payload.
                        bu_oldText u \<noteq> bu_newText u \<and> trim (bu_newText u) \<noteq> [])"
      by (auto simp: batchUpdateBlocks_def Let_def)
    then show ?thesis by blast
  qed
  have 2: "(\<forall>u \<in> set blocks. bu_oldText u = bu_newText u \<or> trim (bu_newText u) = []) \<longrightarrow>
      batchUpdateBlocks network now blocks st = (Resolved noChanges, st)"
    by (auto simp: batchUpdateBlocks_def filter_empty_conv)
  show ?thesis
    using 1 2 by (simp add: updateResumeBlocks_empty)
qed

theorem batch_sends_only_real_changes_witness:
  "batchUpdateBlocks timeoutThenOk 7 [unchangedUpdate, blankUpdate] initialApi =
     (Resolved noChanges, initialApi) \<and>
   updateResumeBlocks timeoutThenOk 7 [] 1 10000 initialApi = (Resolved noChanges, initialApi)"
proof -
  have "\<forall>u \<in> set [unchangedUpdate, blankUpdate]. bu_oldText u = bu_newText u \<or> trim (bu_newText u) = []"
    by (simp add: unchangedUpdate_def blankUpdate_def trim_def isWhiteSpace_def charCode_def)
  then show ?thesis
    using batch_sends_only_real_changes [of timeoutThenOk 7 "[unchangedUpdate, blankUpdate]" initialApi 1 10000]
    by blast
qed

end
